theory Spec2Isabelle
  imports Main "HOL-Library.Sublist" "HOL-Library.Word"
begin

section \<open>The MDB runtime: breakpoint registry and command queue\<close>

text \<open>
  The runtime class \<open>MDBRuntime\<close> keeps a map from normalised file paths to arrays of
  breakpoints, a counter for the next breakpoint id, a queue of commands for the debugger
  subprocess and the symbols of the program. JavaScript numbers that count (ids, lines)
  are exact integers below \<open>2 ^ 53\<close>; they are modelled as \<open>nat\<close> and \<open>int\<close>. Text is a
  list of 8-bit characters, as the tool's ASCII output is.
\<close>

definition LF :: char where "LF = CHR 0x0A"
definition CR :: char where "CR = CHR 0x0D"

record MDBBreakpoint =
  bp_id :: nat
  bp_line :: int
  bp_verified :: bool

record MDBDebugSymbol =
  sym_name :: string
  sym_address :: nat
  sym_length :: nat

text \<open>
  The callback of a queued command. The callbacks of the source are closures; each closure
  the source creates is one constructor: the one of \<open>verifyBreakpoints\<close> (it holds the
  breakpoint object), the one of \<open>clearBreakPoint\<close> (it passes the removed breakpoint to
  the caller's callback) and the one of \<open>clearBreakpoints\<close> (it resolves the promise of
  one delete command).
\<close>

datatype callback =
    NoCallback
  | VerifyBreakpoint MDBBreakpoint
  | RemovedBreakpoint MDBBreakpoint
  | ResolveDelete nat

text \<open>
  What a queued command waits for besides the prompt: a literal string, or the regular
  expression that \<open>addBreakpointCommand\<close> builds from the file name,
  \<open>Breakpoint (\d+) at file (name), line (\d+)\.\<close>. \<open>None\<close> is a command queued without a
  pattern: \<open>executeRawCommand\<close> waits for the prompt \<open>>\<close> only.
\<close>

datatype wait_for =
    Literal string
  | BreakpointConfirmation string

record job =
  job_command :: string
  job_pattern :: "wait_for option"
  job_callback :: callback

datatype EventType = STOP_AT | STACK_FRAMES

text \<open>
  A number that \<open>parseInt\<close> returns: an integer that a double holds, negative zero, an
  infinity, or \<open>NaN\<close>.
\<close>

datatype number = Finite int | NegativeZero | PositiveInfinity | NegativeInfinity | NotANumber

text \<open>
  The data of a parsed event. The parser sets the keys \<open>address\<close>, \<open>file\<close> and \<open>line\<close>
  only; a key that was not set is \<open>None\<close>.
\<close>

record EventData =
  ev_eventType :: "EventType option"
  ev_address :: "number option"
  ev_file :: "string option"
  ev_line :: "number option"

datatype event =
    BreakpointValidated MDBBreakpoint
  | StopOnBreakpoint
  | StopOnException EventData

text \<open>
  \<open>normalizePath\<close> comes from \<open>./utils/path\<close> and \<open>basename\<close> from the platform's path
  module; neither is among the sources, so both are parameters of the runtime.
  \<open>mdbThread\<close> says whether the subprocess has been spawned. \<open>stdinWritten\<close> lists what
  has been written to the subprocess, \<open>events\<close> what \<open>sendEvent\<close> has emitted and \<open>called\<close>
  the other callbacks that have run, in order.
\<close>

record MDBRuntime =
  normalizePath :: "string \<Rightarrow> string"
  basename :: "string \<Rightarrow> string"
  sourceFile :: string
  chip :: string
  tool :: string
  breakPoints :: "string \<Rightarrow> MDBBreakpoint list option"
  breakpointId :: nat
  symbols :: "string \<Rightarrow> MDBDebugSymbol option"
  commandQueue :: "job list"
  mdbThread :: bool
  stdoutBuffer :: string
  stdoutBuffering :: bool
  eventType :: "EventType option"
  stdinWritten :: "string list"
  events :: "event list"
  called :: "callback list"

definition new_MDBRuntime :: "(string \<Rightarrow> string) \<Rightarrow> (string \<Rightarrow> string) \<Rightarrow> string \<Rightarrow> string \<Rightarrow> MDBRuntime" where
  "new_MDBRuntime np bn c t =
     \<lparr>normalizePath = np, basename = bn, sourceFile = [], chip = c, tool = t,
      breakPoints = Map.empty, breakpointId = 1, symbols = Map.empty,
      commandQueue = [], mdbThread = False, stdoutBuffer = [], stdoutBuffering = False,
      eventType = None, stdinWritten = [], events = [], called = []\<rparr>"

subsection \<open>Printing numbers\<close>

text \<open>The decimal digits of an integer, as a template literal prints a number below \<open>10 ^ 21\<close>.\<close>

definition digit_char :: "nat \<Rightarrow> char" where
  "digit_char n = ''0123456789'' ! n"

fun show_nat :: "nat \<Rightarrow> string" where
  "show_nat n = (if n < 10 then [digit_char n] else show_nat (n div 10) @ [digit_char (n mod 10)])"

declare show_nat.simps [simp del]

definition show_int :: "int \<Rightarrow> string" where
  "show_int i = (if i < 0 then CHR ''-'' # show_nat (nat (- i)) else show_nat (nat i))"

subsection \<open>Queueing commands\<close>

definition addCommandToQueue :: "string \<Rightarrow> wait_for option \<Rightarrow> callback \<Rightarrow> MDBRuntime \<Rightarrow> MDBRuntime" where
  "addCommandToQueue command patternOrStringToWait cb rt =
     rt\<lparr>commandQueue := commandQueue rt @
        [\<lparr>job_command = command, job_pattern = patternOrStringToWait, job_callback = cb\<rparr>]\<rparr>"

definition addBreakpointCommand :: "string \<Rightarrow> int \<Rightarrow> callback \<Rightarrow> MDBRuntime \<Rightarrow> MDBRuntime" where
  "addBreakpointCommand name line cb rt =
     addCommandToQueue (''Break '' @ name @ '':'' @ show_int line)
       (Some (BreakpointConfirmation name)) cb rt"

definition removeBreakpointCommand :: "nat \<Rightarrow> callback \<Rightarrow> MDBRuntime \<Rightarrow> MDBRuntime" where
  "removeBreakpointCommand i cb rt = addCommandToQueue (''Delete '' @ show_nat i) None cb rt"

subsection \<open>The registry\<close>

fun verifyLoop :: "string \<Rightarrow> MDBBreakpoint list \<Rightarrow> MDBRuntime \<Rightarrow> MDBRuntime" where
  "verifyLoop filePath [] rt = rt"
| "verifyLoop filePath (breakpoint # rest) rt =
     verifyLoop filePath rest
       (if \<not> bp_verified breakpoint
        then addBreakpointCommand (basename rt filePath) (bp_line breakpoint)
               (VerifyBreakpoint breakpoint) rt
        else rt)"

definition verifyBreakpoints :: "string \<Rightarrow> MDBRuntime \<Rightarrow> MDBRuntime" where
  "verifyBreakpoints filePath rt =
     (case breakPoints rt (normalizePath rt filePath) of
        None \<Rightarrow> rt
      | Some breakpoints \<Rightarrow> verifyLoop filePath breakpoints rt)"

definition getBreakpoints :: "MDBRuntime \<Rightarrow> string \<Rightarrow> int \<Rightarrow> MDBBreakpoint list" where
  "getBreakpoints rt filePath line =
     (case breakPoints rt (normalizePath rt filePath) of
        None \<Rightarrow> []
      | Some bps \<Rightarrow> filter (\<lambda>bp. bp_line bp \<ge> line) bps)"

text \<open>The ids and lines of the breakpoints \<open>getBreakpoints\<close> returns.\<close>

definition registered :: "MDBRuntime \<Rightarrow> string \<Rightarrow> int \<Rightarrow> (nat \<times> int) list" where
  "registered rt f l = map (\<lambda>bp. (bp_id bp, bp_line bp)) (getBreakpoints rt f l)"

definition setBreakPoint :: "string \<Rightarrow> int \<Rightarrow> MDBRuntime \<Rightarrow> MDBBreakpoint \<times> MDBRuntime" where
  "setBreakPoint filePath line rt =
     (let resolvedPath = normalizePath rt filePath;
          bp = \<lparr>bp_id = breakpointId rt, bp_line = line, bp_verified = False\<rparr>;
          rt1 = rt\<lparr>breakpointId := breakpointId rt + 1\<rparr>;
          bps = (case breakPoints rt1 resolvedPath of None \<Rightarrow> [] | Some bps \<Rightarrow> bps);
          rt2 = rt1\<lparr>breakPoints := (breakPoints rt1)(resolvedPath \<mapsto> bps @ [bp])\<rparr>
      in (bp, verifyBreakpoints resolvedPath rt2))"

text \<open>A sequence of \<open>setBreakPoint\<close> calls, collecting the breakpoints they return.\<close>

fun setBreakPoints :: "(string \<times> int) list \<Rightarrow> MDBRuntime \<Rightarrow> MDBBreakpoint list \<times> MDBRuntime" where
  "setBreakPoints [] rt = ([], rt)"
| "setBreakPoints ((filePath, line) # calls) rt =
     (let (bp, rt1) = setBreakPoint filePath line rt;
          (bps, rt2) = setBreakPoints calls rt1
      in (bp # bps, rt2))"

text \<open>
  \<open>clearBreakPoint\<close> removes the first breakpoint of the line from the array of the file
  and queues its delete command.
\<close>

fun removeFirst :: "('a \<Rightarrow> bool) \<Rightarrow> 'a list \<Rightarrow> ('a \<times> 'a list) option" where
  "removeFirst p [] = None"
| "removeFirst p (x # xs) =
     (if p x then Some (x, xs)
      else (case removeFirst p xs of None \<Rightarrow> None | Some (y, ys) \<Rightarrow> Some (y, x # ys)))"

definition clearBreakPoint :: "string \<Rightarrow> int \<Rightarrow> MDBRuntime \<Rightarrow> MDBRuntime" where
  "clearBreakPoint filePath line rt =
     (case breakPoints rt (normalizePath rt filePath) of
        None \<Rightarrow> rt
      | Some bps \<Rightarrow>
          (case removeFirst (\<lambda>bp. bp_line bp = line) bps of
             None \<Rightarrow> rt
           | Some (bp, bps') \<Rightarrow>
               removeBreakpointCommand (bp_id bp) (RemovedBreakpoint bp)
                 (rt\<lparr>breakPoints := (breakPoints rt)(normalizePath rt filePath \<mapsto> bps')\<rparr>)))"

text \<open>
  \<open>clearBreakpoints\<close> queues one delete command for each breakpoint of the file and then
  awaits them. The statement that deleted the file's entry from the map is commented out
  in the source, so the map is not written.
\<close>

fun deleteLoop :: "MDBBreakpoint list \<Rightarrow> MDBRuntime \<Rightarrow> MDBRuntime" where
  "deleteLoop [] rt = rt"
| "deleteLoop (fileBreakpoint # rest) rt =
     deleteLoop rest
       (removeBreakpointCommand (bp_id fileBreakpoint) (ResolveDelete (bp_id fileBreakpoint)) rt)"

definition clearBreakpoints :: "string \<Rightarrow> MDBRuntime \<Rightarrow> MDBRuntime" where
  "clearBreakpoints filePath rt =
     deleteLoop (case breakPoints rt (normalizePath rt filePath) of None \<Rightarrow> [] | Some bps \<Rightarrow> bps) rt"

subsection \<open>Running the queue\<close>

text \<open>
  How a promise of \<open>waitForStdOut\<close> is rejected: by its interval running out, or by a
  message of the subprocess that contains \<open>err\<close>.
\<close>

datatype rejection = Timeout | ToolError string

text \<open>
  The commands are run against a subprocess that acknowledges each of them: it answers
  every wait whose listener is attached to its output. \<open>executeRawCommand\<close> spawns the
  subprocess if there is none (\<open>guardMDBSetup\<close>) and writes the command followed by a
  newline; its waits for the prompt are created after the spawn, so they are answered.
\<close>

definition executeRawCommand :: "string \<Rightarrow> MDBRuntime \<Rightarrow> MDBRuntime" where
  "executeRawCommand command rt =
     rt\<lparr>mdbThread := True, stdinWritten := stdinWritten rt @ [command @ [LF]]\<rparr>"

text \<open>
  \<open>executeAndWait\<close> creates the wait for the pattern first and calls \<open>executeRawCommand\<close>
  second. \<open>waitForStdOut\<close> attaches its listener through \<open>this._mdbThread?.stdout?.on\<close>:
  when there is no subprocess at that moment the wait has no listener; the subprocess is
  spawned and the command written all the same, the interval of the wait runs out and
  the promise of \<open>executeAndWait\<close> is rejected. The result is the rejection, if any, and
  the runtime afterwards.
\<close>

definition executeAndWait :: "string \<Rightarrow> wait_for \<Rightarrow> MDBRuntime \<Rightarrow> rejection option \<times> MDBRuntime" where
  "executeAndWait command patternOrString rt =
     (if mdbThread rt then None else Some Timeout, executeRawCommand command rt)"

definition markVerified :: "nat \<Rightarrow> MDBBreakpoint list \<Rightarrow> MDBBreakpoint list" where
  "markVerified i bps = map (\<lambda>bp. if bp_id bp = i then bp\<lparr>bp_verified := True\<rparr> else bp) bps"

fun runCallback :: "callback \<Rightarrow> MDBRuntime \<Rightarrow> MDBRuntime" where
  "runCallback NoCallback rt = rt"
| "runCallback (VerifyBreakpoint breakpoint) rt =
     rt\<lparr>breakPoints := (\<lambda>f. map_option (markVerified (bp_id breakpoint)) (breakPoints rt f)),
        events := events rt @ [BreakpointValidated (breakpoint\<lparr>bp_verified := True\<rparr>)]\<rparr>"
| "runCallback (RemovedBreakpoint bp) rt = rt\<lparr>called := called rt @ [RemovedBreakpoint bp]\<rparr>"
| "runCallback (ResolveDelete i) rt = rt\<lparr>called := called rt @ [ResolveDelete i]\<rparr>"

text \<open>
  A queued job executes its command and, \<open>then\<close>, runs the callback: the callback of a
  rejected command does not run, and the job is rejected.
\<close>

definition runJob :: "job \<Rightarrow> MDBRuntime \<Rightarrow> rejection option \<times> MDBRuntime" where
  "runJob j rt =
     (case job_pattern j of
        Some patternOrStringToWait \<Rightarrow>
          (case executeAndWait (job_command j) patternOrStringToWait rt of
             (None, rt') \<Rightarrow> (None, runCallback (job_callback j) rt')
           | (Some e, rt') \<Rightarrow> (Some e, rt'))
      | None \<Rightarrow> (None, runCallback (job_callback j) (executeRawCommand (job_command j) rt)))"

text \<open>
  \<open>process\<close> starts the queue with a callback. The queue (package \<open>queue\<close>, concurrency 1)
  runs the jobs one at a time, in order; started with a callback it ends at the first
  job that is rejected, and the jobs behind that one are dropped without being run.
\<close>

fun runJobs :: "job list \<Rightarrow> MDBRuntime \<Rightarrow> MDBRuntime" where
  "runJobs [] rt = rt"
| "runJobs (j # js) rt =
     (case runJob j rt of
        (None, rt') \<Rightarrow> runJobs js rt'
      | (Some e, rt') \<Rightarrow> rt')"

definition process :: "MDBRuntime \<Rightarrow> MDBRuntime" where
  "process rt = runJobs (commandQueue rt) (rt\<lparr>commandQueue := []\<rparr>)"

definition run :: "string option \<Rightarrow> MDBRuntime \<Rightarrow> MDBRuntime" where
  "run stepEvent rt = process rt"

definition continue :: "MDBRuntime \<Rightarrow> MDBRuntime" where
  "continue rt = run None (addCommandToQueue ''Run'' (Some (Literal ''Running'')) NoCallback rt)"

definition step :: "string \<Rightarrow> MDBRuntime \<Rightarrow> MDBRuntime" where
  "step event rt = run (Some event) rt"

section \<open>The ELF reader\<close>

text \<open>
  A read of the \<open>DataView\<close> outside the buffer throws \<open>RangeError\<close>; reading a property of
  \<open>undefined\<close> throws \<open>TypeError\<close>; \<open>readFileSync\<close> throws when the file cannot be read.
  A function that can throw returns \<open>exn + 'a\<close>.
\<close>

datatype exn = RangeError | TypeError | FileError

datatype ELFFileLoadResult = OK | INVALID_ELF

type_synonym bytes = "8 word list"

definition bindE :: "exn + 'a \<Rightarrow> ('a \<Rightarrow> exn + 'b) \<Rightarrow> exn + 'b" where
  "bindE m f = (case m of Inl e \<Rightarrow> Inl e | Inr x \<Rightarrow> f x)"

definition getUint8 :: "bytes \<Rightarrow> nat \<Rightarrow> exn + nat" where
  "getUint8 fa byteOffset =
     (if byteOffset + 1 \<le> length fa then Inr (unat (fa ! byteOffset)) else Inl RangeError)"

definition getUint16 :: "bytes \<Rightarrow> nat \<Rightarrow> bool \<Rightarrow> exn + nat" where
  "getUint16 fa byteOffset littleEndian =
     (if byteOffset + 2 \<le> length fa
      then (let b0 = unat (fa ! byteOffset); b1 = unat (fa ! (byteOffset + 1))
            in Inr (if littleEndian then b0 + 256 * b1 else 256 * b0 + b1))
      else Inl RangeError)"

definition getUint32 :: "bytes \<Rightarrow> nat \<Rightarrow> bool \<Rightarrow> exn + nat" where
  "getUint32 fa byteOffset littleEndian =
     (if byteOffset + 4 \<le> length fa
      then (let b0 = unat (fa ! byteOffset); b1 = unat (fa ! (byteOffset + 1));
                b2 = unat (fa ! (byteOffset + 2)); b3 = unat (fa ! (byteOffset + 3))
            in Inr (if littleEndian
                    then b0 + 256 * b1 + 65536 * b2 + 16777216 * b3
                    else 16777216 * b0 + 65536 * b1 + 256 * b2 + b3))
      else Inl RangeError)"

record ELFFileAccess =
  fileContent :: bytes
  littleEndian :: bool

record ELFElement =
  el_offset :: nat
  el_value :: nat
  el_value2 :: "nat option"
  valueSizeInBytes :: nat

definition new_ELFElement :: "ELFFileAccess \<Rightarrow> nat \<Rightarrow> nat \<Rightarrow> exn + ELFElement" where
  "new_ELFElement fa off sz =
     (if sz = 1 then
        bindE (getUint8 (fileContent fa) off) (\<lambda>v.
        Inr \<lparr>el_offset = off, el_value = v, el_value2 = None, valueSizeInBytes = sz\<rparr>)
      else if sz = 2 then
        bindE (getUint16 (fileContent fa) off (littleEndian fa)) (\<lambda>v.
        Inr \<lparr>el_offset = off, el_value = v, el_value2 = None, valueSizeInBytes = sz\<rparr>)
      else if sz = 4 then
        bindE (getUint32 (fileContent fa) off (littleEndian fa)) (\<lambda>v.
        Inr \<lparr>el_offset = off, el_value = v, el_value2 = None, valueSizeInBytes = sz\<rparr>)
      else if sz = 8 then
        bindE (getUint32 (fileContent fa) off (littleEndian fa)) (\<lambda>v.
        bindE (getUint32 (fileContent fa) (off + 4) (littleEndian fa)) (\<lambda>v2.
        Inr \<lparr>el_offset = off, el_value = v, el_value2 = Some v2, valueSizeInBytes = sz\<rparr>))
      else Inr \<lparr>el_offset = off, el_value = 0, el_value2 = None, valueSizeInBytes = sz\<rparr>)"

text \<open>
  \<open>Get32BitValue\<close> of an 8-byte element in a big-endian file returns \<open>value2\<close>, which
  the constructor has set for that size; for the other sizes \<open>value2\<close> stays undefined and
  is not read.
\<close>

definition Get32BitValue :: "ELFFileAccess \<Rightarrow> ELFElement \<Rightarrow> nat" where
  "Get32BitValue fa el =
     (if valueSizeInBytes el \<le> 4 then el_value el
      else if littleEndian fa then el_value el
      else (case el_value2 el of Some v2 \<Rightarrow> v2 | None \<Rightarrow> 0))"

record ELFHeader =
  E_ident_mag :: ELFElement
  E_ident_class :: ELFElement
  E_ident_data :: ELFElement
  E_ident_version :: ELFElement
  E_ident_OsAbi :: ELFElement
  E_ident_OsAbiVer :: ELFElement
  E_type :: ELFElement
  E_machine :: ELFElement
  E_version :: ELFElement
  E_Entry :: ELFElement
  E_PhOff :: ELFElement
  E_ShOff :: ELFElement
  E_Flags :: ELFElement
  E_Ehsize :: ELFElement
  E_Phentsize :: ELFElement
  E_Phnum :: ELFElement
  E_Shentsize :: ELFElement
  E_Shnum :: ELFElement
  E_Shstrndx :: ELFElement

definition isELF64 :: "ELFHeader \<Rightarrow> bool" where
  "isELF64 h = (el_value (E_ident_class h) = 2)"

text \<open>
  \<open>ELFHeader.load\<close>. The access object starts big-endian and is switched by the data byte
  after the first three elements are read. A buffer shorter than 52 bytes gives
  \<open>INVALID_ELF\<close> with no header field set; otherwise the result carries the access object
  with its endianness and the header.
\<close>

definition ELFHeader_load :: "bytes \<Rightarrow> exn + ELFFileLoadResult \<times> (ELFFileAccess \<times> ELFHeader) option" where
  "ELFHeader_load content =
     (if length content < 52 then Inr (INVALID_ELF, None)
      else
        (let fa0 = \<lparr>fileContent = content, littleEndian = False\<rparr> in
         bindE (new_ELFElement fa0 0 4) (\<lambda>mag.
         bindE (new_ELFElement fa0 4 1) (\<lambda>cls.
         bindE (new_ELFElement fa0 5 1) (\<lambda>dat.
         (let fa = fa0\<lparr>littleEndian := (el_value dat = 1)\<rparr>;
              w = (if el_value cls = 2 then 8 else 4) in
         bindE (new_ELFElement fa 6 1) (\<lambda>ver.
         bindE (new_ELFElement fa 7 1) (\<lambda>osabi.
         bindE (new_ELFElement fa 8 1) (\<lambda>osabiver.
         bindE (new_ELFElement fa 16 2) (\<lambda>typ.
         bindE (new_ELFElement fa 18 2) (\<lambda>machine.
         bindE (new_ELFElement fa 20 4) (\<lambda>version.
         bindE (new_ELFElement fa 24 w) (\<lambda>entry.
         bindE (new_ELFElement fa (24 + w) w) (\<lambda>phoff.
         bindE (new_ELFElement fa (24 + 2 * w) w) (\<lambda>shoff.
         bindE (new_ELFElement fa (24 + 3 * w) 4) (\<lambda>flags.
         bindE (new_ELFElement fa (28 + 3 * w) 2) (\<lambda>ehsize.
         bindE (new_ELFElement fa (30 + 3 * w) 2) (\<lambda>phentsize.
         bindE (new_ELFElement fa (32 + 3 * w) 2) (\<lambda>phnum.
         bindE (new_ELFElement fa (34 + 3 * w) 2) (\<lambda>shentsize.
         bindE (new_ELFElement fa (36 + 3 * w) 2) (\<lambda>shnum.
         bindE (new_ELFElement fa (38 + 3 * w) 2) (\<lambda>shstrndx.
         Inr (OK, Some (fa,
           \<lparr>E_ident_mag = mag, E_ident_class = cls, E_ident_data = dat,
            E_ident_version = ver, E_ident_OsAbi = osabi, E_ident_OsAbiVer = osabiver,
            E_type = typ, E_machine = machine, E_version = version,
            E_Entry = entry, E_PhOff = phoff, E_ShOff = shoff, E_Flags = flags,
            E_Ehsize = ehsize, E_Phentsize = phentsize, E_Phnum = phnum,
            E_Shentsize = shentsize, E_Shnum = shnum, E_Shstrndx = shstrndx\<rparr>))
         ))))))))))))))))))))))"


fun mapE :: "('a \<Rightarrow> exn + 'b) \<Rightarrow> 'a list \<Rightarrow> exn + 'b list" where
  "mapE f [] = Inr []"
| "mapE f (x # xs) = bindE (f x) (\<lambda>y. bindE (mapE f xs) (\<lambda>ys. Inr (y # ys)))"

record ELFProgramHeaderTable =
  P_Type :: ELFElement
  P_Flags :: ELFElement
  P_Offset :: ELFElement
  P_VAddr :: ELFElement
  P_PAddr :: ELFElement
  P_FileSz :: ELFElement
  P_MemSz :: ELFElement
  P_Align :: ELFElement

definition ELFProgramHeaderTable_load :: "ELFFileAccess \<Rightarrow> ELFHeader \<Rightarrow> nat \<Rightarrow> exn + ELFProgramHeaderTable" where
  "ELFProgramHeaderTable_load fa elfHeader startAddress =
     (if isELF64 elfHeader then
        bindE (new_ELFElement fa startAddress 4) (\<lambda>ptype.
        bindE (new_ELFElement fa (startAddress + 4) 4) (\<lambda>pflags.
        bindE (new_ELFElement fa (startAddress + 8) 8) (\<lambda>poffset.
        bindE (new_ELFElement fa (startAddress + 16) 8) (\<lambda>pvaddr.
        bindE (new_ELFElement fa (startAddress + 24) 8) (\<lambda>ppaddr.
        bindE (new_ELFElement fa (startAddress + 32) 8) (\<lambda>pfilesz.
        bindE (new_ELFElement fa (startAddress + 40) 8) (\<lambda>pmemsz.
        bindE (new_ELFElement fa (startAddress + 48) 8) (\<lambda>palign.
        Inr \<lparr>P_Type = ptype, P_Flags = pflags, P_Offset = poffset, P_VAddr = pvaddr,
             P_PAddr = ppaddr, P_FileSz = pfilesz, P_MemSz = pmemsz, P_Align = palign\<rparr>))))))))
      else
        bindE (new_ELFElement fa startAddress 4) (\<lambda>ptype.
        bindE (new_ELFElement fa (startAddress + 4) 4) (\<lambda>poffset.
        bindE (new_ELFElement fa (startAddress + 8) 4) (\<lambda>pvaddr.
        bindE (new_ELFElement fa (startAddress + 12) 4) (\<lambda>ppaddr.
        bindE (new_ELFElement fa (startAddress + 16) 4) (\<lambda>pfilesz.
        bindE (new_ELFElement fa (startAddress + 20) 4) (\<lambda>pmemsz.
        bindE (new_ELFElement fa (startAddress + 24) 4) (\<lambda>pflags.
        bindE (new_ELFElement fa (startAddress + 28) 4) (\<lambda>palign.
        Inr \<lparr>P_Type = ptype, P_Flags = pflags, P_Offset = poffset, P_VAddr = pvaddr,
             P_PAddr = ppaddr, P_FileSz = pfilesz, P_MemSz = pmemsz, P_Align = palign\<rparr>)))))))))"

record ELFSectionHeaderTable =
  Sh_Name :: ELFElement
  Sh_Type :: ELFElement
  Sh_Flags :: ELFElement
  Sh_Addr :: ELFElement
  Sh_Offset :: ELFElement
  Sh_Size :: ELFElement
  Sh_Link :: ELFElement
  Sh_Info :: ELFElement
  Sh_Addralign :: ELFElement
  Sh_Entsize :: ELFElement

definition SHT_SYMTAB :: nat where "SHT_SYMTAB = 2"
definition SHT_NOTE :: nat where "SHT_NOTE = 7"
definition SHT_DYNSYM :: nat where "SHT_DYNSYM = 11"

definition ELFSectionHeaderTable_load :: "ELFFileAccess \<Rightarrow> ELFHeader \<Rightarrow> nat \<Rightarrow> exn + ELFSectionHeaderTable" where
  "ELFSectionHeaderTable_load fa elfHeader startAddress =
     (let elemSize = (if isELF64 elfHeader then 8 else 4) in
        bindE (new_ELFElement fa startAddress 4) (\<lambda>shname.
        bindE (new_ELFElement fa (startAddress + 4) 4) (\<lambda>shtype.
        bindE (new_ELFElement fa (startAddress + 8) elemSize) (\<lambda>shflags.
        bindE (new_ELFElement fa (startAddress + 8 + elemSize) elemSize) (\<lambda>shaddr.
        bindE (new_ELFElement fa (startAddress + 8 + 2 * elemSize) elemSize) (\<lambda>shoffset.
        bindE (new_ELFElement fa (startAddress + 8 + 3 * elemSize) elemSize) (\<lambda>shsize.
        bindE (new_ELFElement fa (startAddress + 8 + 4 * elemSize) 4) (\<lambda>shlink.
        bindE (new_ELFElement fa (startAddress + 12 + 4 * elemSize) 4) (\<lambda>shinfo.
        bindE (new_ELFElement fa (startAddress + 16 + 4 * elemSize) elemSize) (\<lambda>shaddralign.
        bindE (new_ELFElement fa (startAddress + 16 + 5 * elemSize) elemSize) (\<lambda>shentsize.
        Inr \<lparr>Sh_Name = shname, Sh_Type = shtype, Sh_Flags = shflags, Sh_Addr = shaddr,
             Sh_Offset = shoffset, Sh_Size = shsize, Sh_Link = shlink, Sh_Info = shinfo,
             Sh_Addralign = shaddralign, Sh_Entsize = shentsize\<rparr>)))))))))))"

record ELFSymbolTableEntry =
  St_name :: ELFElement
  St_info :: ELFElement
  St_other :: ELFElement
  St_shndx :: ELFElement
  St_value :: ELFElement
  St_size :: ELFElement

definition ELFSymbolTableEntry_load :: "ELFFileAccess \<Rightarrow> ELFHeader \<Rightarrow> nat \<Rightarrow> exn + ELFSymbolTableEntry" where
  "ELFSymbolTableEntry_load fa elfHeader startAddress =
     (if isELF64 elfHeader then
        bindE (new_ELFElement fa startAddress 4) (\<lambda>stname.
        bindE (new_ELFElement fa (startAddress + 4) 1) (\<lambda>stinfo.
        bindE (new_ELFElement fa (startAddress + 5) 1) (\<lambda>stother.
        bindE (new_ELFElement fa (startAddress + 6) 2) (\<lambda>stshndx.
        bindE (new_ELFElement fa (startAddress + 8) 8) (\<lambda>stvalue.
        bindE (new_ELFElement fa (startAddress + 16) 8) (\<lambda>stsize.
        Inr \<lparr>St_name = stname, St_info = stinfo, St_other = stother, St_shndx = stshndx,
             St_value = stvalue, St_size = stsize\<rparr>))))))
      else
        bindE (new_ELFElement fa startAddress 4) (\<lambda>stname.
        bindE (new_ELFElement fa (startAddress + 4) 4) (\<lambda>stvalue.
        bindE (new_ELFElement fa (startAddress + 8) 4) (\<lambda>stsize.
        bindE (new_ELFElement fa (startAddress + 12) 1) (\<lambda>stinfo.
        bindE (new_ELFElement fa (startAddress + 13) 1) (\<lambda>stother.
        bindE (new_ELFElement fa (startAddress + 14) 2) (\<lambda>stshndx.
        Inr \<lparr>St_name = stname, St_info = stinfo, St_other = stother, St_shndx = stshndx,
             St_value = stvalue, St_size = stsize\<rparr>)))))))"

subsection \<open>The symbol table loop\<close>

text \<open>
  \<open>numOfEntrys\<close> is the JavaScript quotient \<open>Sh_Size / Sh_Entsize\<close> of two integers below
  \<open>2 ^ 32\<close>: a ratio when the divisor is positive, \<open>Infinity\<close> for a positive size over
  zero, \<open>NaN\<close> for zero over zero. The loop test \<open>i < numOfEntrys\<close> on an integer \<open>i\<close>
  is decided exactly by cross-multiplication: the rounding of the quotient to a double
  (a relative error of at most \<open>1 / 2 ^ 53\<close>) is smaller than the distance \<open>1 / Sh_Entsize\<close> of a
  ratio from the nearest integer it is not equal to. Every comparison with \<open>NaN\<close> is false.
\<close>

datatype js_quotient = Ratio nat nat | Infinity | NaN

definition js_div :: "nat \<Rightarrow> nat \<Rightarrow> js_quotient" where
  "js_div a b = (if b = 0 then (if a = 0 then NaN else Infinity) else Ratio a b)"

fun js_less :: "nat \<Rightarrow> js_quotient \<Rightarrow> bool" where
  "js_less i (Ratio a b) = (i * b < a)"
| "js_less i Infinity = True"
| "js_less i NaN = False"

text \<open>
  The loop of \<open>ELFSymbolTable.load\<close>. It need not end, so it is a partial function:
  \<open>None\<close> is a run that never leaves the loop. The array \<open>symTabEntries\<close> is a list
  without a length limit.
\<close>

partial_function (option) symTabLoop ::
  "ELFFileAccess \<Rightarrow> ELFHeader \<Rightarrow> ELFSectionHeaderTable \<Rightarrow> js_quotient \<Rightarrow> nat \<Rightarrow>
   ELFSymbolTableEntry list \<Rightarrow> (exn + ELFSymbolTableEntry list) option" where
  "symTabLoop fa elfHeader sectionTable numOfEntrys i symTabEntries =
     (if js_less i numOfEntrys then
        (case ELFSymbolTableEntry_load fa elfHeader
                (Get32BitValue fa (Sh_Offset sectionTable) + i * Get32BitValue fa (Sh_Entsize sectionTable)) of
           Inl e \<Rightarrow> Some (Inl e)
         | Inr symEntry \<Rightarrow>
             symTabLoop fa elfHeader sectionTable numOfEntrys (i + 1) (symTabEntries @ [symEntry]))
      else Some (Inr symTabEntries))"

declare symTabLoop.simps [code]

definition ELFSymbolTable_load ::
  "ELFFileAccess \<Rightarrow> ELFHeader \<Rightarrow> ELFSectionHeaderTable \<Rightarrow> (exn + ELFSymbolTableEntry list) option" where
  "ELFSymbolTable_load fa elfHeader sectionTable =
     symTabLoop fa elfHeader sectionTable
       (js_div (Get32BitValue fa (Sh_Size sectionTable)) (Get32BitValue fa (Sh_Entsize sectionTable)))
       0 []"

record ELFSymbolTable =
  symSectionTable :: ELFSectionHeaderTable
  symTabEntries :: "ELFSymbolTableEntry list"

text \<open>
  \<open>loadSymbolTables\<close> walks the section header tables by index; the list has one entry
  per index below \<open>E_Shnum\<close>. Its result is the constant \<open>OK\<close>.
\<close>

fun loadSymbolTables ::
  "ELFFileAccess \<Rightarrow> ELFHeader \<Rightarrow> ELFSectionHeaderTable list \<Rightarrow>
   (exn + ELFFileLoadResult \<times> ELFSymbolTable list) option" where
  "loadSymbolTables fa elfHeader [] = Some (Inr (OK, []))"
| "loadSymbolTables fa elfHeader (sec # rest) =
     (if Get32BitValue fa (Sh_Type sec) = SHT_SYMTAB \<or> Get32BitValue fa (Sh_Type sec) = SHT_DYNSYM
      then (case ELFSymbolTable_load fa elfHeader sec of
              None \<Rightarrow> None
            | Some (Inl e) \<Rightarrow> Some (Inl e)
            | Some (Inr entries) \<Rightarrow>
                (case loadSymbolTables fa elfHeader rest of
                   None \<Rightarrow> None
                 | Some (Inl e) \<Rightarrow> Some (Inl e)
                 | Some (Inr (r, tabs)) \<Rightarrow>
                     Some (Inr (r, \<lparr>symSectionTable = sec, symTabEntries = entries\<rparr> # tabs))))
      else loadSymbolTables fa elfHeader rest)"


subsection \<open>Strings and note tables\<close>

text \<open>
  \<open>ReadByteString\<close> stops at the first zero byte, at the end of the buffer or after
  \<open>strMaxLength\<close> bytes, and never reads outside the buffer. A negative
  \<open>strMaxLength\<close> gives the empty string; the callers compute it by a subtraction that
  \<open>nat\<close> truncates to zero, with the same result.
\<close>

definition ReadByteString :: "ELFFileAccess \<Rightarrow> nat \<Rightarrow> nat \<Rightarrow> string" where
  "ReadByteString fa strStartOffset strMaxLength =
     map (\<lambda>b. char_of (unat b))
       (takeWhile (\<lambda>b. b \<noteq> 0) (take strMaxLength (drop strStartOffset (fileContent fa))))"

record ELFNoteTableEntry =
  NameElement :: ELFElement
  DescElement :: ELFElement
  NoteType :: ELFElement
  noteName :: string
  noteDesc :: "nat list"

text \<open>The padding loops advance \<open>curOff\<close> until the size is a multiple of four.\<close>

definition padding :: "nat \<Rightarrow> nat" where
  "padding n = (4 - n mod 4) mod 4"

text \<open>
  The loop over the description bytes: its \<open>break\<close> leaves this loop only, with the
  result set to \<open>INVALID_ELF\<close>.
\<close>

fun descLoop ::
  "ELFFileAccess \<Rightarrow> nat \<Rightarrow> nat \<Rightarrow> ELFFileLoadResult \<Rightarrow> nat list \<Rightarrow>
   exn + ELFFileLoadResult \<times> nat list \<times> nat" where
  "descLoop fa n curOff result desc =
     (if n = 0 then Inr (result, desc, curOff)
      else if curOff > length (fileContent fa) then Inr (INVALID_ELF, desc, curOff)
      else bindE (getUint8 (fileContent fa) curOff) (\<lambda>b.
             descLoop fa (n - 1) (curOff + 1) result (desc @ [b])))"

declare descLoop.simps [simp del]

partial_function (option) noteLoop ::
  "ELFFileAccess \<Rightarrow> ELFSectionHeaderTable \<Rightarrow> nat \<Rightarrow> ELFFileLoadResult \<Rightarrow>
   ELFNoteTableEntry list \<Rightarrow> (exn + ELFFileLoadResult \<times> ELFNoteTableEntry list) option" where
  "noteLoop fa sectionTable curOff result noteTabEntries =
     (if curOff + 24 \<le> Get32BitValue fa (Sh_Offset sectionTable) + Get32BitValue fa (Sh_Size sectionTable)
      then
        (case new_ELFElement fa curOff 4 of Inl e \<Rightarrow> Some (Inl e) | Inr namesz \<Rightarrow>
        (case new_ELFElement fa (curOff + 4) 4 of Inl e \<Rightarrow> Some (Inl e) | Inr descsz \<Rightarrow>
        (case new_ELFElement fa (curOff + 8) 4 of Inl e \<Rightarrow> Some (Inl e) | Inr ntype \<Rightarrow>
        (let curOff1 = curOff + 12 in
         if Get32BitValue fa namesz > 0 \<and>
            curOff1 + Get32BitValue fa namesz > length (fileContent fa)
         then Some (Inr (INVALID_ELF, noteTabEntries))
         else
           (let name = (if Get32BitValue fa namesz > 0
                        then ReadByteString fa curOff1 (Get32BitValue fa namesz) else []);
                curOff2 = (if Get32BitValue fa namesz > 0
                           then curOff1 + Get32BitValue fa namesz + padding (Get32BitValue fa namesz)
                           else curOff1)
            in (case (if Get32BitValue fa descsz > 0
                      then bindE (descLoop fa (Get32BitValue fa descsz) curOff2 result [])
                             (\<lambda>(result1, desc, curOff3).
                                Inr (result1, desc, curOff3 + padding (Get32BitValue fa descsz)))
                      else Inr (result, [], curOff2)) of
                  Inl e \<Rightarrow> Some (Inl e)
                | Inr (result1, desc, curOff4) \<Rightarrow>
                    noteLoop fa sectionTable curOff4 result1
                      (noteTabEntries @
                       [\<lparr>NameElement = namesz, DescElement = descsz, NoteType = ntype,
                         noteName = name, noteDesc = desc\<rparr>])))))))
      else Some (Inr (result, noteTabEntries)))"

declare noteLoop.simps [code]

definition ELFNoteTable_load ::
  "ELFFileAccess \<Rightarrow> ELFSectionHeaderTable \<Rightarrow> (exn + ELFFileLoadResult \<times> ELFNoteTableEntry list) option" where
  "ELFNoteTable_load fa sectionTable =
     noteLoop fa sectionTable (Get32BitValue fa (Sh_Offset sectionTable)) OK []"

record ELFNoteTable =
  noteSectionTable :: ELFSectionHeaderTable
  noteTabEntries :: "ELFNoteTableEntry list"

text \<open>
  \<open>loadNoteTables\<close> stops at the first note table whose load is not \<open>OK\<close> and does not
  keep that table.
\<close>

fun loadNoteTables ::
  "ELFFileAccess \<Rightarrow> ELFSectionHeaderTable list \<Rightarrow> ELFNoteTable list \<Rightarrow>
   (exn + ELFFileLoadResult \<times> ELFNoteTable list) option" where
  "loadNoteTables fa [] elfNoteTables = Some (Inr (OK, elfNoteTables))"
| "loadNoteTables fa (sec # rest) elfNoteTables =
     (if Get32BitValue fa (Sh_Type sec) = SHT_NOTE
      then (case ELFNoteTable_load fa sec of
              None \<Rightarrow> None
            | Some (Inl e) \<Rightarrow> Some (Inl e)
            | Some (Inr (result, entries)) \<Rightarrow>
                if result \<noteq> OK then Some (Inr (result, elfNoteTables))
                else loadNoteTables fa rest
                       (elfNoteTables @ [\<lparr>noteSectionTable = sec, noteTabEntries = entries\<rparr>]))
      else loadNoteTables fa rest elfNoteTables)"

subsection \<open>Loading a file\<close>

record ELFFile =
  elfFileAccess :: ELFFileAccess
  elfHeader :: "ELFHeader option"
  elfProgramHeaderTables :: "ELFProgramHeaderTable list"
  elfSectionHeaderTables :: "ELFSectionHeaderTable list"
  elfSymbolTables :: "ELFSymbolTable list"
  elfNoteTables :: "ELFNoteTable list"

text \<open>
  In \<open>E_PhOff.value2 == 0\<close> the field \<open>value2\<close> is undefined for a 4-byte element, and
  \<open>undefined == 0\<close> is false.
\<close>

definition value2_is_zero :: "ELFElement \<Rightarrow> bool" where
  "value2_is_zero el = (el_value2 el = Some 0)"

definition loadProgramHeaderTables ::
  "ELFFileAccess \<Rightarrow> ELFHeader \<Rightarrow> exn + ELFFileLoadResult \<times> ELFProgramHeaderTable list" where
  "loadProgramHeaderTables fa h =
     (if (el_value (E_PhOff h) = 0 \<and> value2_is_zero (E_PhOff h)) \<or>
         Get32BitValue fa (E_PhOff h) + Get32BitValue fa (E_Phnum h) * Get32BitValue fa (E_Phentsize h)
           > length (fileContent fa)
      then Inr (INVALID_ELF, [])
      else bindE (mapE (\<lambda>headerIndex. ELFProgramHeaderTable_load fa h
                          (Get32BitValue fa (E_PhOff h) + headerIndex * Get32BitValue fa (E_Phentsize h)))
                   [0 ..< Get32BitValue fa (E_Phnum h)])
             (\<lambda>tables. Inr (OK, tables)))"

definition loadSectionHeaderTables ::
  "ELFFileAccess \<Rightarrow> ELFHeader \<Rightarrow> exn + ELFFileLoadResult \<times> ELFSectionHeaderTable list" where
  "loadSectionHeaderTables fa h =
     (if (el_value (E_ShOff h) = 0 \<and> value2_is_zero (E_ShOff h)) \<or>
         Get32BitValue fa (E_ShOff h) + Get32BitValue fa (E_Shnum h) * Get32BitValue fa (E_Shentsize h)
           > length (fileContent fa)
      then Inr (INVALID_ELF, [])
      else bindE (mapE (\<lambda>headerIndex. ELFSectionHeaderTable_load fa h
                          (Get32BitValue fa (E_ShOff h) + headerIndex * Get32BitValue fa (E_Shentsize h)))
                   [0 ..< Get32BitValue fa (E_Shnum h)])
             (\<lambda>tables. Inr (OK, tables)))"

text \<open>
  \<open>ELFFile.load\<close>: each stage runs only when the result so far is \<open>OK\<close>. An exception of
  a read leaves \<open>load\<close> at once; \<open>None\<close> is a load that never returns.
\<close>

definition ELFFile_load :: "bytes \<Rightarrow> (exn + ELFFileLoadResult \<times> ELFFile) option" where
  "ELFFile_load content =
     (let f0 = \<lparr>elfFileAccess = \<lparr>fileContent = content, littleEndian = False\<rparr>,
                elfHeader = None, elfProgramHeaderTables = [], elfSectionHeaderTables = [],
                elfSymbolTables = [], elfNoteTables = []\<rparr>
      in case ELFHeader_load content of
           Inl e \<Rightarrow> Some (Inl e)
         | Inr (result, None) \<Rightarrow> Some (Inr (result, f0))
         | Inr (result, Some (fa, h)) \<Rightarrow>
             (let f1 = f0\<lparr>elfFileAccess := fa, elfHeader := Some h\<rparr> in
              if result \<noteq> OK then Some (Inr (result, f1))
              else case loadProgramHeaderTables fa h of
                Inl e \<Rightarrow> Some (Inl e)
              | Inr (result, phts) \<Rightarrow>
                 (let f2 = f1\<lparr>elfProgramHeaderTables := phts\<rparr> in
                  if result \<noteq> OK then Some (Inr (result, f2))
                  else case loadSectionHeaderTables fa h of
                    Inl e \<Rightarrow> Some (Inl e)
                  | Inr (result, shts) \<Rightarrow>
                     (let f3 = f2\<lparr>elfSectionHeaderTables := shts\<rparr> in
                      if result \<noteq> OK then Some (Inr (result, f3))
                      else case loadSymbolTables fa h shts of
                        None \<Rightarrow> None
                      | Some (Inl e) \<Rightarrow> Some (Inl e)
                      | Some (Inr (result, symtabs)) \<Rightarrow>
                         (let f4 = f3\<lparr>elfSymbolTables := symtabs\<rparr> in
                          if result \<noteq> OK then Some (Inr (result, f4))
                          else case loadNoteTables fa shts [] of
                            None \<Rightarrow> None
                          | Some (Inl e) \<Rightarrow> Some (Inl e)
                          | Some (Inr (result, notetabs)) \<Rightarrow>
                              Some (Inr (result, f4\<lparr>elfNoteTables := notetabs\<rparr>)))))))"

text \<open>The value \<open>load()\<close> returns; the file object is what the call leaves in \<open>this\<close>.\<close>

definition ELFFile_load_result :: "bytes \<Rightarrow> (exn + ELFFileLoadResult) option" where
  "ELFFile_load_result content = map_option (map_sum id fst) (ELFFile_load content)"

text \<open>The number of bytes the reads of one symbol table entry cover.\<close>

definition symEntrySize :: "ELFHeader \<Rightarrow> nat" where
  "symEntrySize h = (if isELF64 h then 24 else 16)"

definition ceil_div :: "nat \<Rightarrow> nat \<Rightarrow> nat" where
  "ceil_div a b = (a + b - 1) div b"

subsection \<open>Symbol names\<close>

text \<open>
  \<open>getDescription_StName\<close>, the \<open>description\<close> of \<open>St_name\<close>: the name is read from the
  string table section that \<open>Sh_Link\<close> of the symbol table's section names.
\<close>

definition getDescription_StName ::
  "ELFFile \<Rightarrow> ELFHeader \<Rightarrow> ELFSymbolTable \<Rightarrow> ELFSymbolTableEntry \<Rightarrow> exn + string" where
  "getDescription_StName elfFile h symTable entry =
     (let fa = elfFileAccess elfFile in
      if Get32BitValue fa (St_name entry) \<noteq> 0 then
        (let symStrTableIdx = Get32BitValue fa (Sh_Link (symSectionTable symTable)) in
         if symStrTableIdx < Get32BitValue fa (E_Shnum h) then
           (if symStrTableIdx < length (elfSectionHeaderTables elfFile) then
              (let strSec = elfSectionHeaderTables elfFile ! symStrTableIdx;
                   symStringTableFileOffset = Get32BitValue fa (Sh_Offset strSec);
                   secNameStringFileOffset = symStringTableFileOffset + Get32BitValue fa (St_name entry);
                   strMaxLength = symStringTableFileOffset + Get32BitValue fa (Sh_Size strSec)
                                    - secNameStringFileOffset
               in Inr (ReadByteString fa secNameStringFileOffset strMaxLength))
            else Inl TypeError)
         else Inr [])
      else Inr [])"

section \<open>Starting a session\<close>

text \<open>
  \<open>readFileSync\<close> returns a \<open>Buffer\<close>, and \<open>processElfFile\<close> hands the loader its
  \<open>ArrayBuffer\<close>, \<open>elfBytes.buffer\<close>. Node allocates the \<open>Buffer\<close> of a file of 1 to 4095
  bytes inside its shared pool of 8192 bytes, and the \<open>ArrayBuffer\<close> is then the whole
  pool: the bytes of the file lie somewhere in it, among what the process has stored
  there before. An empty file and a file of 4096 bytes or more have an \<open>ArrayBuffer\<close> of
  their own, which holds the bytes of the file and nothing else. The pool is the
  parameter \<open>pooled\<close>: the content of the pool once the bytes of the file are in it.
\<close>

definition arrayBuffer :: "(bytes \<Rightarrow> bytes) \<Rightarrow> bytes \<Rightarrow> bytes" where
  "arrayBuffer pooled elfBytes =
     (if 0 < length elfBytes \<and> length elfBytes < 4096 then pooled elfBytes else elfBytes)"

text \<open>
  \<open>processElfFile\<close> reads the program file, loads it and copies the entries of the first
  symbol table into \<open>_symbols\<close>. The result of \<open>load\<close> is bound to a constant and not
  read. \<open>elfSymbolTables[0]\<close> is \<open>undefined\<close> when no symbol table has been loaded, and
  reading \<open>symTabEntries\<close> from it throws. The description of \<open>St_info\<close> is computed from
  the value read at load time and not used. The file system is the parameter \<open>fs\<close>: the
  bytes of the file at a path, if it can be read.
\<close>

fun symbolLoop ::
  "ELFFile \<Rightarrow> ELFHeader \<Rightarrow> ELFSymbolTable \<Rightarrow> ELFSymbolTableEntry list \<Rightarrow> MDBRuntime \<Rightarrow> exn + MDBRuntime" where
  "symbolLoop elfFile h symbolTable [] rt = Inr rt"
| "symbolLoop elfFile h symbolTable (symbolTableEntry # rest) rt =
     bindE (getDescription_StName elfFile h symbolTable symbolTableEntry) (\<lambda>name.
       symbolLoop elfFile h symbolTable rest
         (rt\<lparr>symbols := (symbols rt)(name \<mapsto>
              \<lparr>sym_name = name,
               sym_address = Get32BitValue (elfFileAccess elfFile) (St_value symbolTableEntry),
               sym_length = el_value (St_size symbolTableEntry)\<rparr>)\<rparr>))"

definition processElfFile ::
  "(string \<Rightarrow> bytes option) \<Rightarrow> (bytes \<Rightarrow> bytes) \<Rightarrow> string \<Rightarrow> MDBRuntime \<Rightarrow> (exn + MDBRuntime) option" where
  "processElfFile fs pooled elfPath rt =
     (case fs elfPath of
        None \<Rightarrow> Some (Inl FileError)
      | Some elfBytes \<Rightarrow>
          (case ELFFile_load (arrayBuffer pooled elfBytes) of
             None \<Rightarrow> None
           | Some (Inl e) \<Rightarrow> Some (Inl e)
           | Some (Inr (result, elfFile)) \<Rightarrow>
               (case elfSymbolTables elfFile of
                  [] \<Rightarrow> Some (Inl TypeError)
                | symbolTable # _ \<Rightarrow>
                    (case elfHeader elfFile of
                       None \<Rightarrow> Some (Inl TypeError)
                     | Some h \<Rightarrow> Some (symbolLoop elfFile h symbolTable (symTabEntries symbolTable) rt)))))"

record LaunchRequestArguments =
  program :: string
  stopOnEntry :: bool
  toolConfiguration :: "string list"

text \<open>
  \<open>start\<close>, against a subprocess that acknowledges every command. Its promise is rejected
  by an exception of \<open>processElfFile\<close> or by a rejected wait for \<open>Program succeeded\<close>: the
  commands after that point are not sent. It is fulfilled with the runtime as it is once
  the queue that \<open>step\<close> or \<open>continue\<close> started has run.
\<close>

datatype failure = Thrown exn | WaitRejected rejection

definition start ::
  "(string \<Rightarrow> bytes option) \<Rightarrow> (bytes \<Rightarrow> bytes) \<Rightarrow> LaunchRequestArguments \<Rightarrow> MDBRuntime \<Rightarrow>
     (failure + MDBRuntime) option" where
  "start fs pooled args rt =
     (let rt1 = verifyBreakpoints (sourceFile rt) rt;
          rt2 = fold (\<lambda>toolConfig. executeRawCommand (''Set '' @ toolConfig @ [LF])) (toolConfiguration args) rt1
      in case processElfFile fs pooled (program args) rt2 of
           None \<Rightarrow> None
         | Some (Inl e) \<Rightarrow> Some (Inl (Thrown e))
         | Some (Inr rt3) \<Rightarrow>
             (let rt4 = executeRawCommand (''Device '' @ chip rt3) rt3;
                  rt5 = executeRawCommand (''Hwtool '' @ tool rt4) rt4
              in case executeAndWait (''Program '' @ [CHR 0x22] @ program args @ [CHR 0x22])
                        (Literal ''Program succeeded'') rt5 of
                   (Some e, rt6) \<Rightarrow> Some (Inl (WaitRejected e))
                 | (None, rt6) \<Rightarrow>
                     Some (Inr (if stopOnEntry args then step ''stopOnEntry'' rt6 else continue rt6))))"

section \<open>Text: substrings and the regular expressions of the runtime\<close>

text \<open>\<open>String.prototype.includes\<close>: the pattern occurs somewhere in the text.\<close>

fun str_includes :: "string \<Rightarrow> string \<Rightarrow> bool" where
  "str_includes [] p = (p = [])"
| "str_includes (c # s) p = (prefix p (c # s) \<or> str_includes s p)"

text \<open>\<open>toLowerCase\<close> on ASCII text.\<close>

definition lower_char :: "char \<Rightarrow> char" where
  "lower_char c =
     (case map_of (zip ''ABCDEFGHIJKLMNOPQRSTUVWXYZ'' ''abcdefghijklmnopqrstuvwxyz'') c of
        Some l \<Rightarrow> l | None \<Rightarrow> c)"

definition toLowerCase :: "string \<Rightarrow> string" where
  "toLowerCase s = map lower_char s"

text \<open>
  The regular expressions of the runtime use literals, character classes repeated once or
  more (greedy) or a fixed number of times, groups, and alternatives at the top level.
  A class is the dot (any character but a line terminator), \<open>\d\<close>, or a bracket of
  ranges.
\<close>

datatype cls = Dot | Digit | Ranges "(char \<times> char) list"

fun cls_mem :: "cls \<Rightarrow> char \<Rightarrow> bool" where
  "cls_mem Dot c = (c \<noteq> LF \<and> c \<noteq> CR)"
| "cls_mem Digit c = (c \<in> set ''0123456789'')"
| "cls_mem (Ranges rs) c =
     list_ex (\<lambda>(lo, hi). (of_char lo :: nat) \<le> of_char c \<and> (of_char c :: nat) \<le> of_char hi) rs"

datatype item = Lit string | Many cls | Exactly nat cls | GroupOpen | GroupClose

type_synonym regex = "item list list"

text \<open>
  The backtracking matcher. \<open>rx_items\<close> matches a sequence of items at the position \<open>p\<close>
  of the text and returns every way to do it, as the end position and the texts of the
  groups, in the order in which a backtracking engine tries them: a greedy repetition
  takes the longest run first and gives characters back one at a time.
\<close>

fun rx_items :: "item list \<Rightarrow> string \<Rightarrow> nat \<Rightarrow> nat list \<Rightarrow> string list \<Rightarrow> (nat \<times> string list) list" where
  "rx_items [] s p opens groups = [(p, groups)]"
| "rx_items (Lit l # r) s p opens groups =
     (if prefix l (drop p s) then rx_items r s (p + length l) opens groups else [])"
| "rx_items (Many c # r) s p opens groups =
     concat (map (\<lambda>k. rx_items r s (p + k) opens groups)
                 (rev [1 ..< Suc (length (takeWhile (cls_mem c) (drop p s)))]))"
| "rx_items (Exactly n c # r) s p opens groups =
     (if n \<le> length (drop p s) \<and> list_all (cls_mem c) (take n (drop p s))
      then rx_items r s (p + n) opens groups else [])"
| "rx_items (GroupOpen # r) s p opens groups = rx_items r s p (p # opens) groups"
| "rx_items (GroupClose # r) s p opens groups =
     (case opens of
        [] \<Rightarrow> []
      | b # opens' \<Rightarrow> rx_items r s p opens' (groups @ [take (p - b) (drop b s)]))"

text \<open>The first alternative that matches at the start of the text wins.\<close>

fun rx_at :: "regex \<Rightarrow> string \<Rightarrow> (nat \<times> string list) option" where
  "rx_at [] s = None"
| "rx_at (alt # alts) s =
     (case rx_items alt s 0 [] [] of [] \<Rightarrow> rx_at alts s | m # _ \<Rightarrow> Some m)"

text \<open>
  \<open>String.prototype.match\<close> with a regular expression without the \<open>g\<close> flag: the leftmost
  match, as the matched text and the groups.
\<close>

fun rx_match :: "regex \<Rightarrow> string \<Rightarrow> (string \<times> string list) option" where
  "rx_match rx [] = (case rx_at rx [] of None \<Rightarrow> None | Some (n, gs) \<Rightarrow> Some ([], gs))"
| "rx_match rx (c # s) =
     (case rx_at rx (c # s) of
        None \<Rightarrow> rx_match rx s
      | Some (n, gs) \<Rightarrow> Some (take n (c # s), gs))"

text \<open>
  \<open>String.prototype.match\<close> with the \<open>g\<close> flag: all matched texts, left to right, none
  overlapping. The expressions used here match no empty text; after an empty match the
  search moves on by one character.
\<close>

function rx_match_all :: "regex \<Rightarrow> string \<Rightarrow> string list" where
  "rx_match_all rx s =
     (if s = [] then []
      else case rx_at rx s of
             None \<Rightarrow> rx_match_all rx (tl s)
           | Some (n, gs) \<Rightarrow> take n s # rx_match_all rx (drop (max n 1) s))"
  by pat_completeness auto
termination
  by (relation "measure (\<lambda>(rx, s). length s)") auto

declare rx_match_all.simps [simp del]

text \<open>
  \<open>parseInt\<close> with the radix 10 or 16, the two that the runtime passes. It skips leading
  white space, takes a sign, with radix 16 skips a prefix \<open>0x\<close>, and reads the longest run
  of digits of the radix; without a digit the result is \<open>NaN\<close>. The number read is
  rounded to the nearest double, a tie to the even significand, and from
  \<open>2 ^ 1024 - 2 ^ 970\<close> on to infinity.
\<close>

definition digit_value :: "char \<Rightarrow> nat option" where
  "digit_value c =
     map_of (zip ''0123456789abcdefABCDEF''
                 [0, 1, 2, 3, 4, 5, 6, 7, 8, 9, 10, 11, 12, 13, 14, 15, 10, 11, 12, 13, 14, 15]) c"

definition is_digit :: "nat \<Rightarrow> char \<Rightarrow> bool" where
  "is_digit radix c = (case digit_value c of None \<Rightarrow> False | Some v \<Rightarrow> v < radix)"

definition digits_value :: "nat \<Rightarrow> string \<Rightarrow> int" where
  "digits_value radix ds =
     foldl (\<lambda>acc c. acc * int radix + (case digit_value c of Some v \<Rightarrow> int v | None \<Rightarrow> 0)) 0 ds"

text \<open>The white space of ASCII: tab, line feed, vertical tab, form feed, carriage return, space.\<close>

definition isWhiteSpace :: "char \<Rightarrow> bool" where
  "isWhiteSpace c = (c \<in> set [CHR 0x09, CHR 0x0A, CHR 0x0B, CHR 0x0C, CHR 0x0D, CHR 0x20])"

text \<open>The number of binary digits of a positive integer.\<close>

function bit_length :: "int \<Rightarrow> nat" where
  "bit_length n = (if n \<le> 0 then 0 else Suc (bit_length (n div 2)))"
  by pat_completeness auto
termination
  by (relation "measure nat") auto

declare bit_length.simps [simp del]

text \<open>
  The double nearest to a natural number, \<open>None\<close> when it is infinity. A double holds 53
  binary digits: of a longer number the digits after the 53rd are rounded away.
\<close>

definition nearestDouble :: "int \<Rightarrow> int option" where
  "nearestDouble n =
     (if n < 2 ^ 53 then Some n
      else
        (let e = bit_length n - 53;
             q = n div 2 ^ e;
             r = n mod 2 ^ e;
             half = 2 ^ (e - 1);
             m = (if half < r \<or> (r = half \<and> q mod 2 = 1) then q + 1 else q) * 2 ^ e
         in if m < 2 ^ 1024 then Some m else None))"

definition parseInt :: "string \<Rightarrow> nat \<Rightarrow> number" where
  "parseInt inputString radix =
     (let S = dropWhile isWhiteSpace inputString;
          negative = prefix ''-'' S;
          S1 = (if prefix ''-'' S \<or> prefix ''+'' S then drop 1 S else S);
          S2 = (if radix = 16 \<and> (prefix ''0x'' S1 \<or> prefix ''0X'' S1) then drop 2 S1 else S1);
          Z = takeWhile (is_digit radix) S2
      in if Z = [] then NotANumber
         else
           (case nearestDouble (digits_value radix Z) of
              None \<Rightarrow> if negative then NegativeInfinity else PositiveInfinity
            | Some m \<Rightarrow>
                if m = 0 \<and> negative then NegativeZero
                else Finite (if negative then - m else m)))"

definition convertHexToNumber :: "string \<Rightarrow> number" where
  "convertHexToNumber hexString = parseInt hexString 16"

text \<open>\<open>String.prototype.split\<close> with a one-character and with the two-character separator.\<close>

fun split_char :: "char \<Rightarrow> string \<Rightarrow> string list" where
  "split_char sep [] = [[]]"
| "split_char sep (c # s) =
     (if c = sep then [] # split_char sep s
      else (case split_char sep s of l # ls \<Rightarrow> (c # l) # ls | [] \<Rightarrow> [[c]]))"

fun split_crlf :: "string \<Rightarrow> string list" where
  "split_crlf [] = [[]]"
| "split_crlf [c] = [[c]]"
| "split_crlf (c # d # s) =
     (if c = CR \<and> d = LF then [] # split_crlf s
      else (case split_crlf (d # s) of l # ls \<Rightarrow> (c # l) # ls | [] \<Rightarrow> [[c]]))"

text \<open>\<open>Array.prototype.join\<close> with a one-character separator.\<close>

fun join_char :: "char \<Rightarrow> string list \<Rightarrow> string" where
  "join_char sep [] = []"
| "join_char sep [x] = x"
| "join_char sep (x # y # xs) = x @ [sep] @ join_char sep (y # xs)"

section \<open>Waiting for output of the subprocess\<close>

text \<open>
  \<open>waitForStdOut\<close> returns a promise. Its state is the pattern, the ticks left of the
  1 ms interval, whether the interval is still set, whether the \<open>data\<close> listener is still
  attached to the standard output, and how the promise has been settled. A promise is
  settled once: a later \<open>resolve\<close> or \<open>reject\<close> changes nothing.
\<close>

datatype pattern = Str string | Rx regex

datatype outcome = Pending | Resolved string | Rejected rejection

record wait =
  patternOrString :: pattern
  timeLeft :: int
  intervalSet :: bool
  listening :: bool
  promise :: outcome

definition settle :: "outcome \<Rightarrow> wait \<Rightarrow> wait" where
  "settle out w = (if promise w = Pending then w\<lparr>promise := out\<rparr> else w)"

text \<open>
  The listener is attached through \<open>this._mdbThread?.stdout?.on\<close>: without a subprocess
  nothing is attached.
\<close>

definition waitForStdOut :: "bool \<Rightarrow> pattern \<Rightarrow> int \<Rightarrow> wait" where
  "waitForStdOut hasThread pat timeout =
     \<lparr>patternOrString = pat, timeLeft = timeout, intervalSet = True,
      listening = hasThread, promise = Pending\<rparr>"

definition isMatching :: "pattern \<Rightarrow> string \<Rightarrow> bool" where
  "isMatching pat dataAsMessage =
     (case pat of
        Rx rx \<Rightarrow> rx_match rx dataAsMessage \<noteq> None
      | Str s \<Rightarrow> str_includes dataAsMessage s)"

text \<open>
  The listener. On a message with \<open>err\<close> it rejects and does nothing else: the interval
  stays set and the listener attached. On a match it clears the interval, detaches itself
  and resolves.
\<close>

definition onData :: "string \<Rightarrow> wait \<Rightarrow> wait" where
  "onData dataAsMessage w =
     (if \<not> listening w then w
      else if str_includes dataAsMessage ''err'' then settle (Rejected (ToolError dataAsMessage)) w
      else if isMatching (patternOrString w) dataAsMessage
           then settle (Resolved dataAsMessage) (w\<lparr>intervalSet := False, listening := False\<rparr>)
      else w)"

text \<open>
  The interval callback, once per millisecond. At zero it clears the interval and rejects;
  it does not detach the listener.
\<close>

definition onTick :: "wait \<Rightarrow> wait" where
  "onTick w =
     (if \<not> intervalSet w then w
      else if timeLeft w - 1 \<le> 0
           then settle (Rejected Timeout) (w\<lparr>timeLeft := timeLeft w - 1, intervalSet := False\<rparr>)
      else w\<lparr>timeLeft := timeLeft w - 1\<rparr>)"

text \<open>What happens on the standard output and the clock, delivered to every wait in turn.\<close>

datatype occurrence = Data string | Tick

fun deliver :: "occurrence \<Rightarrow> wait \<Rightarrow> wait" where
  "deliver (Data d) w = onData d w"
| "deliver Tick w = onTick w"

definition occur :: "occurrence list \<Rightarrow> wait list \<Rightarrow> wait list" where
  "occur os ws = fold (\<lambda>occ. map (deliver occ)) os ws"

section \<open>The event parser\<close>

text \<open>The pattern \<open>/address:(0x.{8})|file:(.+)|source line:(\d+)/gm\<close>.\<close>

definition stopFields :: regex where
  "stopFields =
     [[Lit ''address:'', GroupOpen, Lit ''0x'', Exactly 8 Dot, GroupClose],
      [Lit ''file:'', GroupOpen, Many Dot, GroupClose],
      [Lit ''source line:'', GroupOpen, Many Digit, GroupClose]]"

text \<open>
  One step of the collector. A match is split at its colons into a key and a raw value
  (with more than two parts the second part is dropped and the rest joined again). The
  pattern produces the keys \<open>address\<close>, \<open>file\<close> and \<open>source line\<close> only.
\<close>

definition collect :: "EventData \<Rightarrow> string \<Rightarrow> EventData" where
  "collect collector m =
     (let parts = split_char (CHR '':'') m;
          key = (case parts of [] \<Rightarrow> [] | k # _ \<Rightarrow> k);
          rawValue = (if length parts \<le> 2 then (case parts of [_, v] \<Rightarrow> v | _ \<Rightarrow> [])
                      else join_char (CHR '':'') (drop 2 parts));
          sanitizedKey = map (\<lambda>c. if c = CHR '' '' then CHR ''_'' else c) key
      in if sanitizedKey = ''source_line'' then collector\<lparr>ev_line := Some (parseInt rawValue 10)\<rparr>
         else if sanitizedKey = ''address'' then collector\<lparr>ev_address := Some (convertHexToNumber rawValue)\<rparr>
         else if sanitizedKey = ''file'' then collector\<lparr>ev_file := Some rawValue\<rparr>
         else collector)"

text \<open>
  \<open>bp.line === data.line\<close>: the event has a line, and it is the number of the line of the
  breakpoint; the two zeros are equal.
\<close>

definition lineEquals :: "int \<Rightarrow> number option \<Rightarrow> bool" where
  "lineEquals l v = (v = Some (Finite l) \<or> (l = 0 \<and> v = Some NegativeZero))"

definition sendEvent :: "event \<Rightarrow> MDBRuntime \<Rightarrow> MDBRuntime" where
  "sendEvent e rt = rt\<lparr>events := events rt @ [e]\<rparr>"

definition fireEventsForData :: "EventData \<Rightarrow> MDBRuntime \<Rightarrow> MDBRuntime" where
  "fireEventsForData data rt =
     (if ev_eventType data = Some STOP_AT then
        (case (case breakPoints rt (normalizePath rt (case ev_file data of Some f \<Rightarrow> f | None \<Rightarrow> [])) of
                 None \<Rightarrow> []
               | Some breakpoints \<Rightarrow>
                   filter (\<lambda>bp. lineEquals (bp_line bp) (ev_line data)) breakpoints) of
           [] \<Rightarrow> sendEvent (StopOnException data) rt
         | bp # _ \<Rightarrow>
             (let rt1 = sendEvent StopOnBreakpoint rt in
              if \<not> bp_verified bp
              then sendEvent (BreakpointValidated (bp\<lparr>bp_verified := True\<rparr>))
                     (rt1\<lparr>breakPoints := (\<lambda>f. map_option (markVerified (bp_id bp)) (breakPoints rt1 f))\<rparr>)
              else rt1))
      else rt)"

text \<open>
  \<open>parseStdOutMessage\<close>, the listener that sees every message of the subprocess. A
  message with the marker starts the buffer with the message, and the buffering branch
  then appends the same message again.
\<close>

definition parseStdOutMessage :: "string \<Rightarrow> MDBRuntime \<Rightarrow> MDBRuntime" where
  "parseStdOutMessage message rt =
     (let rt1 = (if str_includes (toLowerCase message) ''stop at''
                 then rt\<lparr>eventType := Some STOP_AT, stdoutBuffering := True, stdoutBuffer := message\<rparr>
                 else rt)
      in if stdoutBuffering rt1 then
           (let rt2 = rt1\<lparr>stdoutBuffer := stdoutBuffer rt1 @ message\<rparr>;
                matches = rx_match_all stopFields (filter (\<lambda>c. c \<noteq> LF) (stdoutBuffer rt2))
            in if length matches \<ge> 3 then
                 (let rt3 = rt2\<lparr>stdoutBuffering := False, stdoutBuffer := []\<rparr>;
                      eventData = (foldl collect
                                     \<lparr>ev_eventType = None, ev_address = None, ev_file = None, ev_line = None\<rparr>
                                     matches)\<lparr>ev_eventType := eventType rt3\<rparr>
                  in fireEventsForData eventData rt3)
               else rt2)
         else rt1)"

section \<open>Stack traces\<close>

text \<open>
  The index and the line of a frame are results of \<open>parseInt\<close>. The pattern of a frame is
  \<open>/#(\d+)  ([a-zA-z0-9_ ]+) \(\) at (.+):(\d+)/\<close>; the range \<open>A-z\<close> of its class is the one
  the source writes.
\<close>

record MDBStackFrame =
  frame_index :: number
  frame_name :: string
  frame_file :: string
  frame_line :: number

definition frameFields :: regex where
  "frameFields =
     [[Lit ''#'', GroupOpen, Many Digit, GroupClose, Lit ''  '',
       GroupOpen,
       Many (Ranges [(CHR ''a'', CHR ''z''), (CHR ''A'', CHR ''z''), (CHR ''0'', CHR ''9''),
                     (CHR ''_'', CHR ''_''), (CHR '' '', CHR '' '')]),
       GroupClose, Lit '' () at '',
       GroupOpen, Many Dot, GroupClose, Lit '':'', GroupOpen, Many Digit, GroupClose]]"

definition parseFrame :: "string \<Rightarrow> MDBStackFrame option" where
  "parseFrame rawFrameBuffer =
     (case rx_match frameFields rawFrameBuffer of
        Some (m, [index, name, file, line]) \<Rightarrow>
          Some \<lparr>frame_index = parseInt index 10, frame_name = name, frame_file = file,
                frame_line = parseInt line 10\<rparr>
      | _ \<Rightarrow> None)"

definition parseFrames :: "string \<Rightarrow> MDBStackFrame list" where
  "parseFrames collectedBuffer = List.map_filter parseFrame (split_crlf collectedBuffer)"

text \<open>
  \<open>stack\<close> clears the buffer, switches buffering on and awaits two promises: the wait for
  \<open>null\<close>, created first, and the wait for the prompt of \<open>executeRawCommand\<close>. Every message
  goes to \<open>parseStdOutMessage\<close> and then to both listeners. \<open>stack\<close> goes on after the message
  that settles the second of them, and is rejected as soon as the promise it is awaiting
  is rejected. When the output ends before that, the intervals run out. The
  continuations of the promises run between two messages. The wait for \<open>null\<close> is created
  before \<open>executeRawCommand\<close> can spawn a subprocess: without one it has no listener and
  runs out.
\<close>

fun stackFeed :: "string list \<Rightarrow> MDBRuntime \<Rightarrow> wait \<Rightarrow> wait \<Rightarrow> rejection + MDBRuntime" where
  "stackFeed [] rt w1 w2 = Inl Timeout"
| "stackFeed (d # ds) rt w1 w2 =
     (let rt' = parseStdOutMessage d rt; w1' = onData d w1; w2' = onData d w2
      in case promise w1' of
           Rejected e \<Rightarrow> Inl e
         | Pending \<Rightarrow> stackFeed ds rt' w1' w2'
         | Resolved _ \<Rightarrow>
             (case promise w2' of
                Rejected e \<Rightarrow> Inl e
              | Pending \<Rightarrow> stackFeed ds rt' w1' w2'
              | Resolved _ \<Rightarrow> Inr rt'))"

definition stack :: "int \<Rightarrow> int \<Rightarrow> string list \<Rightarrow> MDBRuntime \<Rightarrow> rejection + (MDBStackFrame list \<times> nat) \<times> MDBRuntime" where
  "stack startFrame endFrame output rt =
     (let rt1 = rt\<lparr>eventType := Some STACK_FRAMES, stdoutBuffer := [], stdoutBuffering := True\<rparr>;
          w1 = waitForStdOut (mdbThread rt1) (Str ''null'') 30000;
          rt2 = executeRawCommand (''Backtrace full '' @ show_int (endFrame - startFrame)) rt1;
          w2 = waitForStdOut (mdbThread rt2) (Str ''>'') 30000
      in case stackFeed output rt2 w1 w2 of
           Inl e \<Rightarrow> Inl e
         | Inr rt3 \<Rightarrow>
             (let collectedBuffer = stdoutBuffer rt3;
                  parsedFrames = parseFrames collectedBuffer
              in Inr ((parsedFrames, length parsedFrames), rt3\<lparr>stdoutBuffering := False\<rparr>)))"

section \<open>Example inputs\<close>

text \<open>
  A little-endian ELF32 header of 52 bytes with the given program header offset and count
  and section header offset and count; program header entries are 32 bytes, section
  header entries 40 bytes.
\<close>

definition elf32_header :: "8 word \<Rightarrow> 8 word \<Rightarrow> 8 word \<Rightarrow> 8 word \<Rightarrow> bytes" where
  "elf32_header phoff phnum shoff shnum =
     [0x7F, 0x45, 0x4C, 0x46, 1, 1, 1, 0, 0, 0, 0, 0, 0, 0, 0, 0,
      2, 0, 0, 0, 1, 0, 0, 0, 0, 0, 0, 0, phoff, 0, 0, 0,
      shoff, 0, 0, 0, 0, 0, 0, 0, 52, 0, 32, 0, phnum, 0, 40, 0,
      shnum, 0, 0, 0]"

text \<open>
  A section header of type \<open>SHT_SYMTAB\<close> with the given file offset (two low bytes), size
  and entry size.
\<close>

definition symtab_section :: "8 word \<Rightarrow> 8 word \<Rightarrow> 8 word \<Rightarrow> 8 word \<Rightarrow> bytes" where
  "symtab_section off0 off1 sz entsz =
     [0, 0, 0, 0, 2, 0, 0, 0, 0, 0, 0, 0, 0, 0, 0, 0,
      off0, off1, 0, 0, sz, 0, 0, 0, 0, 0, 0, 0, 0, 0, 0, 0,
      0, 0, 0, 0, entsz, 0, 0, 0]"

text \<open>
  Four images. \<open>image_uneven\<close>: one symbol table at offset 92 with \<open>Sh_Size = 40\<close> and
  \<open>Sh_Entsize = 16\<close>, followed by 48 bytes of symbol data. \<open>image_symtab_outside\<close>: one
  symbol table that declares the offset 1000 in a file of 92 bytes. \<open>image_phdr_outside\<close>:
  a header alone that declares one program header at offset 52. \<open>image_elf64_short\<close>: the
  first 58 bytes of an ELF64 file that declares one program header of 56 bytes at offset 64.
\<close>

definition image_uneven :: bytes where
  "image_uneven = elf32_header 52 0 52 1 @ symtab_section 92 0 40 16 @ replicate 48 0"


definition image_phdr_outside :: bytes where
  "image_phdr_outside = elf32_header 52 1 52 0"

definition image_elf64_short :: bytes where
  "image_elf64_short =
     [0x7F, 0x45, 0x4C, 0x46, 2, 1, 1, 0, 0, 0, 0, 0, 0, 0, 0, 0,
      2, 0, 0, 0, 1, 0, 0, 0, 0, 0, 0, 0, 0, 0, 0, 0,
      64, 0, 0, 0, 0, 0, 0, 0, 0, 0, 0, 0, 0, 0, 0, 0,
      0, 0, 0, 0, 64, 0, 56, 0, 1, 0]"


definition image_phdr_beyond :: bytes where
  "image_phdr_beyond = elf32_header 52 255 52 0 @ replicate 4044 0"

text \<open>What a loaded file says of its symbol tables: size, entry size, entries constructed.\<close>

definition symbolTableSummary :: "ELFFile \<Rightarrow> (nat \<times> nat \<times> nat) list" where
  "symbolTableSummary f =
     map (\<lambda>t. (Get32BitValue (elfFileAccess f) (Sh_Size (symSectionTable t)),
               Get32BitValue (elfFileAccess f) (Sh_Entsize (symSectionTable t)),
               length (symTabEntries t)))
       (elfSymbolTables f)"

text \<open>
  Records for a call of \<open>ELFSymbolTable.load\<close>: a 4-byte element, a symbol table section
  with the given offset, size and entry size, and an ELF32 header.
\<close>

definition element32 :: "nat \<Rightarrow> ELFElement" where
  "element32 v = \<lparr>el_offset = 0, el_value = v, el_value2 = None, valueSizeInBytes = 4\<rparr>"

definition example_section :: "nat \<Rightarrow> nat \<Rightarrow> nat \<Rightarrow> ELFSectionHeaderTable" where
  "example_section off sz entsz =
     \<lparr>Sh_Name = element32 0, Sh_Type = element32 SHT_SYMTAB, Sh_Flags = element32 0,
      Sh_Addr = element32 0, Sh_Offset = element32 off, Sh_Size = element32 sz,
      Sh_Link = element32 0, Sh_Info = element32 0, Sh_Addralign = element32 0,
      Sh_Entsize = element32 entsz\<rparr>"

definition example_header32 :: ELFHeader where
  "example_header32 =
     \<lparr>E_ident_mag = element32 0, E_ident_class = element32 1, E_ident_data = element32 1,
      E_ident_version = element32 1, E_ident_OsAbi = element32 0, E_ident_OsAbiVer = element32 0,
      E_type = element32 2, E_machine = element32 0, E_version = element32 1,
      E_Entry = element32 0, E_PhOff = element32 52, E_ShOff = element32 52, E_Flags = element32 0,
      E_Ehsize = element32 52, E_Phentsize = element32 32, E_Phnum = element32 0,
      E_Shentsize = element32 40, E_Shnum = element32 1, E_Shstrndx = element32 0\<rparr>"

definition example_access :: "nat \<Rightarrow> ELFFileAccess" where
  "example_access n = \<lparr>fileContent = replicate n 0, littleEndian = True\<rparr>"

text \<open>A fresh runtime whose path functions leave a path as it is, and launch arguments.\<close>

definition example_runtime :: MDBRuntime where
  "example_runtime = new_MDBRuntime (\<lambda>p. p) (\<lambda>p. p) ''PIC18F4550'' ''SIM''"

definition example_launch :: "bool \<Rightarrow> LaunchRequestArguments" where
  "example_launch soe = \<lparr>program = ''main.elf'', stopOnEntry = soe, toolConfiguration = []\<rparr>"

text \<open>
  A runtime whose subprocess has been spawned, and three answers to a backtrace command.
  \<open>backtrace_output\<close>: one message with two frames, a line that is no frame, and the
  prompt. \<open>backtrace_on_error\<close>: one message with one frame, of a function whose name
  contains \<open>err\<close>. \<open>backtrace_stopped\<close>: two messages, a frame in each, the second with a
  line \<open>Stop at\<close>.
\<close>

definition spawned_runtime :: MDBRuntime where
  "spawned_runtime = example_runtime\<lparr>mdbThread := True\<rparr>"

definition backtrace_output :: "string list" where
  "backtrace_output =
     [''#0  main () at main.c:10'' @ [CR, LF] @ ''#1  isr () at isr.c:4'' @ [CR, LF] @
      ''No locals: null'' @ [CR, LF] @ ''>'']"

definition backtrace_on_error :: "string list" where
  "backtrace_on_error =
     [''#0  on_error () at main.c:10'' @ [CR, LF] @ ''No locals: null'' @ [CR, LF] @ ''>'']"

definition backtrace_stopped :: "string list" where
  "backtrace_stopped =
     [''#0  main () at main.c:10'' @ [CR, LF],
      ''#1  isr () at isr.c:4'' @ [CR, LF] @ ''Stop at'' @ [CR, LF] @ ''No locals: null'' @ [CR, LF] @ ''>'']"

section \<open>Breakpoint ids\<close>

lemma addCommandToQueue_breakpointId [simp]:
  "breakpointId (addCommandToQueue c p cb rt) = breakpointId rt"
  by (simp add: addCommandToQueue_def)

lemma addCommandToQueue_basename [simp]:
  "basename (addCommandToQueue c p cb rt) = basename rt"
  by (simp add: addCommandToQueue_def)

lemma verifyLoop_breakpointId [simp]:
  "breakpointId (verifyLoop f bps rt) = breakpointId rt"
  by (induction bps arbitrary: rt) (simp_all add: addBreakpointCommand_def)

lemma verifyBreakpoints_breakpointId [simp]:
  "breakpointId (verifyBreakpoints f rt) = breakpointId rt"
  by (simp add: verifyBreakpoints_def split: option.splits)

lemma setBreakPoint_id:
  "bp_id (fst (setBreakPoint f l rt)) = breakpointId rt"
  by (simp add: setBreakPoint_def Let_def)

lemma setBreakPoint_counter:
  "breakpointId (snd (setBreakPoint f l rt)) = Suc (breakpointId rt)"
  by (simp add: setBreakPoint_def Let_def)

lemma setBreakPoints_ids:
  "map bp_id (fst (setBreakPoints calls rt)) = [breakpointId rt ..< breakpointId rt + length calls]"
proof (induction calls arbitrary: rt)
  case Nil
  show ?case by simp
next
  case (Cons c calls)
  obtain f l where c: "c = (f, l)" by (cases c)
  have "map bp_id (fst (setBreakPoints (c # calls) rt)) =
        bp_id (fst (setBreakPoint f l rt)) # map bp_id (fst (setBreakPoints calls (snd (setBreakPoint f l rt))))"
    by (simp add: c split_beta Let_def)
  also have "\<dots> = breakpointId rt # [Suc (breakpointId rt) ..< Suc (breakpointId rt) + length calls]"
    by (simp add: Cons.IH setBreakPoint_id setBreakPoint_counter)
  also have "\<dots> = [breakpointId rt ..< breakpointId rt + length (c # calls)]"
    by (subst upt_rec [of "breakpointId rt"]) simp
  finally show ?case .
qed

text \<open>
  C9. \<open>N\<close> sequential \<open>setBreakPoint\<close> calls, on any mix of files and from any state of
  the session, return \<open>N\<close> breakpoints whose ids are strictly increasing in call order and
  pairwise distinct, whatever the files are: they are the \<open>N\<close> consecutive values of the
  session's counter.
\<close>

theorem setBreakPoint_ids_increasing_unique:
  "length (fst (setBreakPoints calls rt)) = length calls \<and>
   map bp_id (fst (setBreakPoints calls rt)) = [breakpointId rt ..< breakpointId rt + length calls] \<and>
   sorted_wrt (<) (map bp_id (fst (setBreakPoints calls rt))) \<and>
   distinct (map bp_id (fst (setBreakPoints calls rt)))"
proof -
  have ids: "map bp_id (fst (setBreakPoints calls rt)) = [breakpointId rt ..< breakpointId rt + length calls]"
    by (rule setBreakPoints_ids)
  have len: "length (fst (setBreakPoints calls rt)) = length calls"
    using arg_cong [OF ids, of length] by simp
  have srt: "sorted_wrt (<) (map bp_id (fst (setBreakPoints calls rt)))"
    by (simp only: ids sorted_wrt_upt)
  have dst: "distinct (map bp_id (fst (setBreakPoints calls rt)))"
    by (simp only: ids distinct_upt)
  from len ids srt dst show ?thesis by blast
qed

section \<open>The ELF reader: reads, bounds and the symbol table loop\<close>

lemma bindE_Inr [simp]: "bindE (Inr x) f = f x"
  by (simp add: bindE_def)

lemma bindE_Inl [simp]: "bindE (Inl e) f = Inl e"
  by (simp add: bindE_def)

lemma new_ELFElement_in_range:
  "sz \<in> {1, 2, 4, 8} \<Longrightarrow> off + sz \<le> length (fileContent fa) \<Longrightarrow> \<exists>el. new_ELFElement fa off sz = Inr el"
  by (auto simp: new_ELFElement_def getUint8_def getUint16_def getUint32_def Let_def)

lemma ELFSymbolTableEntry_load_in_range:
  assumes "a + symEntrySize h \<le> length (fileContent fa)"
  shows "\<exists>e. ELFSymbolTableEntry_load fa h a = Inr e"
proof (cases "isELF64 h")
  case True
  with assms have len: "a + 24 \<le> length (fileContent fa)" by (simp add: symEntrySize_def)
  obtain e1 where e1: "new_ELFElement fa a 4 = Inr e1"
    using new_ELFElement_in_range [of 4 a fa] len by auto
  obtain e2 where e2: "new_ELFElement fa (a + 4) 1 = Inr e2"
    using new_ELFElement_in_range [of 1 "a + 4" fa] len by auto
  obtain e3 where e3: "new_ELFElement fa (a + 5) 1 = Inr e3"
    using new_ELFElement_in_range [of 1 "a + 5" fa] len by auto
  obtain e4 where e4: "new_ELFElement fa (a + 6) 2 = Inr e4"
    using new_ELFElement_in_range [of 2 "a + 6" fa] len by auto
  obtain e5 where e5: "new_ELFElement fa (a + 8) 8 = Inr e5"
    using new_ELFElement_in_range [of 8 "a + 8" fa] len by auto
  obtain e6 where e6: "new_ELFElement fa (a + 16) 8 = Inr e6"
    using new_ELFElement_in_range [of 8 "a + 16" fa] len by auto
  show ?thesis
    using e1 e2 e3 e4 e5 e6 by (simp add: ELFSymbolTableEntry_load_def True)
next
  case False
  with assms have len: "a + 16 \<le> length (fileContent fa)" by (simp add: symEntrySize_def)
  obtain e1 where e1: "new_ELFElement fa a 4 = Inr e1"
    using new_ELFElement_in_range [of 4 a fa] len by auto
  obtain e2 where e2: "new_ELFElement fa (a + 4) 4 = Inr e2"
    using new_ELFElement_in_range [of 4 "a + 4" fa] len by auto
  obtain e3 where e3: "new_ELFElement fa (a + 8) 4 = Inr e3"
    using new_ELFElement_in_range [of 4 "a + 8" fa] len by auto
  obtain e4 where e4: "new_ELFElement fa (a + 12) 1 = Inr e4"
    using new_ELFElement_in_range [of 1 "a + 12" fa] len by auto
  obtain e5 where e5: "new_ELFElement fa (a + 13) 1 = Inr e5"
    using new_ELFElement_in_range [of 1 "a + 13" fa] len by auto
  obtain e6 where e6: "new_ELFElement fa (a + 14) 2 = Inr e6"
    using new_ELFElement_in_range [of 2 "a + 14" fa] len by auto
  show ?thesis
    using e1 e2 e3 e4 e5 e6 by (simp add: ELFSymbolTableEntry_load_def False)
qed


text \<open>With a guard that is always true and a read that succeeds, the loop never returns.\<close>

lemma symTabLoop_diverges_aux:
  assumes "symTabLoop fa h sec q i acc = Some y"
  shows "\<not> (q = Infinity \<and> Get32BitValue fa (Sh_Entsize sec) = 0 \<and>
            (\<exists>e. ELFSymbolTableEntry_load fa h (Get32BitValue fa (Sh_Offset sec)) = Inr e))"
  by (rule symTabLoop.raw_induct
        [where P = "\<lambda>fa h sec q i acc y. \<not> (q = Infinity \<and> Get32BitValue fa (Sh_Entsize sec) = 0 \<and>
            (\<exists>e. ELFSymbolTableEntry_load fa h (Get32BitValue fa (Sh_Offset sec)) = Inr e))", OF _ assms])
     (auto split: if_splits sum.splits)

lemma symTabLoop_diverges:
  assumes "Get32BitValue fa (Sh_Entsize sec) = 0"
    and "\<exists>e. ELFSymbolTableEntry_load fa h (Get32BitValue fa (Sh_Offset sec)) = Inr e"
  shows "symTabLoop fa h sec Infinity i acc = None"
proof (cases "symTabLoop fa h sec Infinity i acc")
  case None
  then show ?thesis .
next
  case (Some y)
  from symTabLoop_diverges_aux [OF Some] assms show ?thesis by blast
qed


lemma less_ceil_div: "0 < b \<Longrightarrow> i * b < a \<longleftrightarrow> i < ceil_div a b"
proof -
  assume b: "0 < b"
  have "i < (a + b - 1) div b \<longleftrightarrow> (i + 1) * b \<le> a + b - 1"
    using b by (simp add: less_eq_div_iff_mult_less_eq Suc_le_eq [symmetric])
  also have "\<dots> \<longleftrightarrow> i * b < a"
    using b by (cases b) auto
  finally show ?thesis by (simp add: ceil_div_def)
qed

lemma ceil_div_dvd: "0 < b \<Longrightarrow> b dvd a \<Longrightarrow> ceil_div a b = a div b"
proof -
  assume b: "0 < b" and "b dvd a"
  then obtain k where a: "a = b * k" by (auto simp: dvd_def)
  have e1: "b * k + b - 1 = b * k + (b - 1)" using b by simp
  have z: "(b - 1) div b = 0" using b by (intro div_less) simp
  have "(b * k + (b - 1)) div b = k + (b - 1) div b"
    using b by (intro div_mult_self4) simp
  then have e2: "(b * k + (b - 1)) div b = k" by (simp only: z add_0_right)
  show ?thesis by (simp only: ceil_div_def a e1 e2) (use b in simp)
qed

lemma symTabLoop_terminates:
  assumes "0 < Get32BitValue fa (Sh_Entsize sec)"
    and "\<forall>j. j * Get32BitValue fa (Sh_Entsize sec) < sz \<longrightarrow>
           Get32BitValue fa (Sh_Offset sec) + j * Get32BitValue fa (Sh_Entsize sec) + symEntrySize h
             \<le> length (fileContent fa)"
  shows "\<exists>es. symTabLoop fa h sec (Ratio sz (Get32BitValue fa (Sh_Entsize sec))) i acc = Some (Inr es)
      \<and> length es = length acc + (ceil_div sz (Get32BitValue fa (Sh_Entsize sec)) - i)"
proof -
  define b where "b = Get32BitValue fa (Sh_Entsize sec)"
  define n where "n = ceil_div sz b"
  have guard: "\<And>j. js_less j (Ratio sz b) \<longleftrightarrow> j < n"
    using assms(1) by (simp add: less_ceil_div b_def n_def)
  have "\<exists>es. symTabLoop fa h sec (Ratio sz b) i acc = Some (Inr es) \<and> length es = length acc + (n - i)"
  proof (induction "n - i" arbitrary: i acc)
    case 0
    then have "\<not> js_less i (Ratio sz b)" using guard [of i] by simp
    then show ?case using 0 by (subst symTabLoop.simps) simp
  next
    case (Suc k)
    then have lt: "i < n" by simp
    then have g: "js_less i (Ratio sz b)" using guard [of i] by simp
    then have "i * b < sz" by simp
    with assms(2) have "Get32BitValue fa (Sh_Offset sec) + i * b + symEntrySize h \<le> length (fileContent fa)"
      by (simp add: b_def)
    from ELFSymbolTableEntry_load_in_range [OF this]
    obtain e where e: "ELFSymbolTableEntry_load fa h (Get32BitValue fa (Sh_Offset sec) + i * b) = Inr e"
      by blast
    have k: "k = n - Suc i" using Suc.hyps(2) by simp
    from Suc.hyps(1) [OF k, of "acc @ [e]"]
    obtain es where es: "symTabLoop fa h sec (Ratio sz b) (Suc i) (acc @ [e]) = Some (Inr es)"
      and len: "length es = length (acc @ [e]) + (n - Suc i)" by blast
    have "symTabLoop fa h sec (Ratio sz b) i acc = Some (Inr es)"
      using g e es by (subst symTabLoop.simps) (simp add: b_def)
    moreover have "length es = length acc + (n - i)" using len lt by simp
    ultimately show ?case by blast
  qed
  then show ?thesis by (simp add: b_def n_def)
qed

lemma ELFSymbolTable_load_in_range:
  assumes "0 < Get32BitValue fa (Sh_Entsize sec)"
    and "\<forall>j. j * Get32BitValue fa (Sh_Entsize sec) < Get32BitValue fa (Sh_Size sec) \<longrightarrow>
           Get32BitValue fa (Sh_Offset sec) + j * Get32BitValue fa (Sh_Entsize sec) + symEntrySize h
             \<le> length (fileContent fa)"
  shows "\<exists>es. ELFSymbolTable_load fa h sec = Some (Inr es) \<and>
           length es = ceil_div (Get32BitValue fa (Sh_Size sec)) (Get32BitValue fa (Sh_Entsize sec))"
  using symTabLoop_terminates [OF assms, of 0 "[]"] assms(1)
  by (simp add: ELFSymbolTable_load_def js_div_def)


lemmas elf_eval = ELFFile_load_result_def ELFFile_load_def ELFHeader_load_def new_ELFElement_def
  getUint8_def getUint16_def getUint32_def Let_def loadProgramHeaderTables_def
  loadSectionHeaderTables_def Get32BitValue_def value2_is_zero_def ELFSectionHeaderTable_load_def
  isELF64_def ELFSymbolTable_load_def SHT_SYMTAB_def SHT_DYNSYM_def SHT_NOTE_def js_div_def
  ELFSymbolTableEntry_load_def ELFProgramHeaderTable_load_def symbolTableSummary_def
  elf32_header_def symtab_section_def

text \<open>
  C10, as stated, fails: for a symbol table with \<open>Sh_Size = 40\<close> and \<open>Sh_Entsize = 16\<close>, whose
  entries lie inside the file, the loop runs while \<open>i < 2.5\<close> and constructs three entries,
  not \<open>floor (40 / 16) = 2\<close>.
\<close>

theorem symtab_uneven_size_counterexample:
  "map_option (map_sum id (symbolTableSummary \<circ> snd)) (ELFFile_load image_uneven) = Some (Inr [(40, 16, 3)])
   \<and> (40 :: nat) div 16 = 2"
  by (simp add: image_uneven_def elf_eval symTabLoop.simps)

text \<open>
  C10, amended. When every entry it reads lies inside the buffer, \<open>ELFSymbolTable.load\<close>
  returns for \<open>Sh_Entsize > 0\<close> and constructs the quotient \<open>Sh_Size / Sh_Entsize\<close> rounded
  up, which is the floor when \<open>Sh_Entsize\<close> divides \<open>Sh_Size\<close>. There is no guard on a zero
  entry size: for \<open>Sh_Entsize = 0\<close> and \<open>Sh_Size > 0\<close>, with the entry at \<open>Sh_Offset\<close> inside
  the buffer, the loop does not terminate.
\<close>

theorem symtab_load_entry_count:
  "(0 < Get32BitValue fa (Sh_Entsize sec) \<and>
    (\<forall>j. j * Get32BitValue fa (Sh_Entsize sec) < Get32BitValue fa (Sh_Size sec) \<longrightarrow>
         Get32BitValue fa (Sh_Offset sec) + j * Get32BitValue fa (Sh_Entsize sec) + symEntrySize h
           \<le> length (fileContent fa))
    \<longrightarrow> (\<exists>es. ELFSymbolTable_load fa h sec = Some (Inr es) \<and>
              length es = ceil_div (Get32BitValue fa (Sh_Size sec)) (Get32BitValue fa (Sh_Entsize sec)) \<and>
              (Get32BitValue fa (Sh_Entsize sec) dvd Get32BitValue fa (Sh_Size sec) \<longrightarrow>
               length es = Get32BitValue fa (Sh_Size sec) div Get32BitValue fa (Sh_Entsize sec))))
   \<and>
   (Get32BitValue fa (Sh_Entsize sec) = 0 \<and> 0 < Get32BitValue fa (Sh_Size sec) \<and>
    Get32BitValue fa (Sh_Offset sec) + symEntrySize h \<le> length (fileContent fa)
    \<longrightarrow> ELFSymbolTable_load fa h sec = None)"
proof (intro conjI impI)
  assume a: "0 < Get32BitValue fa (Sh_Entsize sec) \<and>
    (\<forall>j. j * Get32BitValue fa (Sh_Entsize sec) < Get32BitValue fa (Sh_Size sec) \<longrightarrow>
         Get32BitValue fa (Sh_Offset sec) + j * Get32BitValue fa (Sh_Entsize sec) + symEntrySize h
           \<le> length (fileContent fa))"
  from ELFSymbolTable_load_in_range [OF conjunct1 [OF a] conjunct2 [OF a]]
  obtain es where es: "ELFSymbolTable_load fa h sec = Some (Inr es)"
    and len: "length es = ceil_div (Get32BitValue fa (Sh_Size sec)) (Get32BitValue fa (Sh_Entsize sec))"
    by blast
  show "\<exists>es. ELFSymbolTable_load fa h sec = Some (Inr es) \<and>
              length es = ceil_div (Get32BitValue fa (Sh_Size sec)) (Get32BitValue fa (Sh_Entsize sec)) \<and>
              (Get32BitValue fa (Sh_Entsize sec) dvd Get32BitValue fa (Sh_Size sec) \<longrightarrow>
               length es = Get32BitValue fa (Sh_Size sec) div Get32BitValue fa (Sh_Entsize sec))"
    using es len ceil_div_dvd [OF conjunct1 [OF a]] by auto
next
  assume b: "Get32BitValue fa (Sh_Entsize sec) = 0 \<and> 0 < Get32BitValue fa (Sh_Size sec) \<and>
    Get32BitValue fa (Sh_Offset sec) + symEntrySize h \<le> length (fileContent fa)"
  then have "\<exists>e. ELFSymbolTableEntry_load fa h (Get32BitValue fa (Sh_Offset sec)) = Inr e"
    using ELFSymbolTableEntry_load_in_range by blast
  from symTabLoop_diverges [OF conjunct1 [OF b] this]
  show "ELFSymbolTable_load fa h sec = None"
    using b by (simp add: ELFSymbolTable_load_def js_div_def)
qed

lemmas example_eval = example_access_def example_section_def example_header32_def element32_def
  symEntrySize_def ceil_div_def

theorem symtab_load_entry_count_witness:
  "(\<exists>es. ELFSymbolTable_load (example_access 140) example_header32 (example_section 92 40 16) = Some (Inr es)
        \<and> length es = 3)
   \<and> (\<exists>es. ELFSymbolTable_load (example_access 140) example_header32 (example_section 92 48 16) = Some (Inr es)
        \<and> length es = 48 div 16)
   \<and> ELFSymbolTable_load (example_access 140) example_header32 (example_section 92 40 0) = None"
proof -
  have r1: "\<forall>j. j * 16 < (40::nat) \<longrightarrow> 92 + j * 16 + 16 \<le> (140::nat)" by auto
  have r2: "\<forall>j. j * 16 < (48::nat) \<longrightarrow> 92 + j * 16 + 16 \<le> (140::nat)" by auto
  show ?thesis
    using symtab_load_entry_count [of "example_access 140" "example_section 92 40 16" example_header32]
      symtab_load_entry_count [of "example_access 140" "example_section 92 48 16" example_header32]
      symtab_load_entry_count [of "example_access 140" "example_section 92 40 0" example_header32]
      r1 r2
    by (simp add: example_eval Get32BitValue_def isELF64_def)
qed




subsection \<open>Program headers outside the buffer\<close>

text \<open>
  The header loads when the buffer holds it in full: 52 bytes, or 64 bytes when the class
  byte says ELF64.
\<close>

lemma ELFHeader_load_ok:
  assumes "52 \<le> length content" and "unat (content ! 4) = 2 \<longrightarrow> 64 \<le> length content"
  shows "\<exists>fa h. ELFHeader_load content = Inr (OK, Some (fa, h)) \<and> fileContent fa = content"
  using assms
  by (cases "unat (content ! 4) = 2")
     (simp_all add: ELFHeader_load_def new_ELFElement_def getUint8_def getUint16_def getUint32_def Let_def)

text \<open>
  C3, as stated, fails on a truncated ELF64 image: in these 58 bytes the program header
  offset is 64, \<open>phnum\<close> is 1 and \<open>phentsize\<close> is 56, so their sum exceeds the length, but
  the header needs 64 bytes and the read of \<open>E_Shentsize\<close> at offset 58 throws
  \<open>RangeError\<close> before any bound is checked.
\<close>

theorem load_elf64_short_header_counterexample:
  "getUint32 image_elf64_short 32 True = Inr 64 \<and>
   getUint32 image_elf64_short 36 True = Inr 0 \<and>
   getUint16 image_elf64_short 54 True = Inr 56 \<and>
   getUint16 image_elf64_short 56 True = Inr 1 \<and>
   length image_elf64_short < 64 + 1 * 56 \<and>
   ELFFile_load_result image_elf64_short = Some (Inl RangeError)"
  by (simp add: image_elf64_short_def elf_eval)

text \<open>
  C3, amended. For every input image that holds its header in full (at least 52 bytes,
  and at least 64 bytes when its class byte says ELF64), the header loads, and if the
  program header offset plus \<open>phnum * phentsize\<close>, on the values \<open>Get32BitValue\<close> gives,
  exceeds the buffer length, \<open>ELFFile.load\<close> returns \<open>INVALID_ELF\<close>. An image shorter than
  52 bytes gives \<open>INVALID_ELF\<close> as well.
\<close>

theorem load_program_headers_out_of_bounds:
  "(length content < 52 \<longrightarrow> ELFFile_load_result content = Some (Inr INVALID_ELF)) \<and>
   (52 \<le> length content \<and> (unat (content ! 4) = 2 \<longrightarrow> 64 \<le> length content) \<longrightarrow>
      (\<exists>fa h. ELFHeader_load content = Inr (OK, Some (fa, h)) \<and>
        (length content <
           Get32BitValue fa (E_PhOff h) + Get32BitValue fa (E_Phnum h) * Get32BitValue fa (E_Phentsize h)
         \<longrightarrow> ELFFile_load_result content = Some (Inr INVALID_ELF))))"
proof (intro conjI impI)
  assume "length content < 52"
  then show "ELFFile_load_result content = Some (Inr INVALID_ELF)"
    by (simp add: ELFFile_load_result_def ELFFile_load_def ELFHeader_load_def)
next
  assume a: "52 \<le> length content \<and> (unat (content ! 4) = 2 \<longrightarrow> 64 \<le> length content)"
  from ELFHeader_load_ok [OF conjunct1 [OF a] conjunct2 [OF a]]
  obtain fa h where hd: "ELFHeader_load content = Inr (OK, Some (fa, h))"
    and fc: "fileContent fa = content" by blast
  have "length content <
           Get32BitValue fa (E_PhOff h) + Get32BitValue fa (E_Phnum h) * Get32BitValue fa (E_Phentsize h)
         \<longrightarrow> ELFFile_load_result content = Some (Inr INVALID_ELF)"
    by (simp add: ELFFile_load_result_def ELFFile_load_def hd loadProgramHeaderTables_def fc)
  with hd show "\<exists>fa h. ELFHeader_load content = Inr (OK, Some (fa, h)) \<and>
        (length content <
           Get32BitValue fa (E_PhOff h) + Get32BitValue fa (E_Phnum h) * Get32BitValue fa (E_Phentsize h)
         \<longrightarrow> ELFFile_load_result content = Some (Inr INVALID_ELF))"
    by blast
qed

theorem load_program_headers_out_of_bounds_witness:
  "52 \<le> length image_phdr_outside \<and>
   unat (image_phdr_outside ! 4) = 1 \<and>
   (\<exists>fa h. ELFHeader_load image_phdr_outside = Inr (OK, Some (fa, h)) \<and>
      Get32BitValue fa (E_PhOff h) = 52 \<and> Get32BitValue fa (E_Phnum h) = 1 \<and>
      Get32BitValue fa (E_Phentsize h) = 32) \<and>
   ELFFile_load_result image_phdr_outside = Some (Inr INVALID_ELF) \<and>
   ELFFile_load_result [] = Some (Inr INVALID_ELF)"
proof -
  have h1: "52 \<le> length image_phdr_outside"
    by (simp add: image_phdr_outside_def elf32_header_def)
  have h2: "unat (image_phdr_outside ! 4) = 1"
    by (simp add: image_phdr_outside_def elf32_header_def)
  from load_program_headers_out_of_bounds [of image_phdr_outside] h1 h2
  obtain fa h where hd: "ELFHeader_load image_phdr_outside = Inr (OK, Some (fa, h))"
    and imp: "length image_phdr_outside <
           Get32BitValue fa (E_PhOff h) + Get32BitValue fa (E_Phnum h) * Get32BitValue fa (E_Phentsize h)
         \<longrightarrow> ELFFile_load_result image_phdr_outside = Some (Inr INVALID_ELF)"
    by auto
  from hd have vals: "Get32BitValue fa (E_PhOff h) = 52 \<and> Get32BitValue fa (E_Phnum h) = 1 \<and>
      Get32BitValue fa (E_Phentsize h) = 32"
    by (auto simp: image_phdr_outside_def elf_eval)
  have len: "length image_phdr_outside = 52"
    by (simp add: image_phdr_outside_def elf32_header_def)
  from imp vals len have res: "ELFFile_load_result image_phdr_outside = Some (Inr INVALID_ELF)"
    by simp
  have short: "ELFFile_load_result [] = Some (Inr INVALID_ELF)"
    using load_program_headers_out_of_bounds [of "[]"] by simp
  from h1 h2 hd vals res short show ?thesis by blast
qed

section \<open>The command queue: what is written to the subprocess\<close>

lemma executeRawCommand_fields [simp]:
  "stdinWritten (executeRawCommand c rt) = stdinWritten rt @ [c @ [LF]]"
  "breakPoints (executeRawCommand c rt) = breakPoints rt"
  "normalizePath (executeRawCommand c rt) = normalizePath rt"
  "commandQueue (executeRawCommand c rt) = commandQueue rt"
  "mdbThread (executeRawCommand c rt)"
  "chip (executeRawCommand c rt) = chip rt"
  "tool (executeRawCommand c rt) = tool rt"
  by (simp_all add: executeRawCommand_def)

lemma runCallback_fields [simp]:
  "stdinWritten (runCallback cb rt) = stdinWritten rt"
  "normalizePath (runCallback cb rt) = normalizePath rt"
  "commandQueue (runCallback cb rt) = commandQueue rt"
  "mdbThread (runCallback cb rt) = mdbThread rt"
  by (cases cb; simp)+







text \<open>The callbacks change the \<open>verified\<close> flag only: ids and lines stay.\<close>

lemma markVerified_id_line [simp]:
  "map (\<lambda>bp. (bp_id bp, bp_line bp)) (markVerified i bps) = map (\<lambda>bp. (bp_id bp, bp_line bp)) bps"
  by (induction bps) (simp_all add: markVerified_def)

lemma filter_markVerified:
  "filter (\<lambda>bp. l \<le> bp_line bp) (markVerified i bps) = markVerified i (filter (\<lambda>bp. l \<le> bp_line bp) bps)"
  by (induction bps) (simp_all add: markVerified_def)

lemma registered_runCallback [simp]: "registered (runCallback cb rt) f l = registered rt f l"
  by (cases cb)
     (auto simp: registered_def getBreakpoints_def filter_markVerified split: option.splits)

lemma registered_executeRawCommand [simp]: "registered (executeRawCommand c rt) f l = registered rt f l"
  by (simp add: registered_def getBreakpoints_def executeRawCommand_def)

lemma registered_runJob [simp]: "registered (snd (runJob j rt)) f l = registered rt f l"
  by (simp add: runJob_def executeAndWait_def split: option.splits)

lemma registered_runJobs: "registered (runJobs js rt) f l = registered rt f l"
proof (induction js arbitrary: rt)
  case Nil
  then show ?case by simp
next
  case (Cons j js)
  obtain r rt' where r: "runJob j rt = (r, rt')" by (cases "runJob j rt")
  have k: "registered rt' f l = registered rt f l"
    using registered_runJob [of j rt f l] r by simp
  show ?case
  proof (cases r)
    case None
    from Cons.IH [of rt'] show ?thesis by (simp add: r None k)
  next
    case (Some e)
    then show ?thesis by (simp add: r k)
  qed
qed

lemma registered_process: "registered (process rt) f l = registered rt f l"
proof -
  have "registered (rt\<lparr>commandQueue := []\<rparr>) f l = registered rt f l"
    by (simp add: registered_def getBreakpoints_def)
  then show ?thesis by (simp add: process_def registered_runJobs)
qed

lemma removeBreakpointCommand_fields [simp]:
  "breakPoints (removeBreakpointCommand i cb rt) = breakPoints rt"
  "normalizePath (removeBreakpointCommand i cb rt) = normalizePath rt"
  "commandQueue (removeBreakpointCommand i cb rt) = commandQueue rt @
     [\<lparr>job_command = ''Delete '' @ show_nat i, job_pattern = None, job_callback = cb\<rparr>]"
  by (simp_all add: removeBreakpointCommand_def addCommandToQueue_def)

lemma deleteLoop_fields:
  "breakPoints (deleteLoop bps rt) = breakPoints rt"
  "normalizePath (deleteLoop bps rt) = normalizePath rt"
  "commandQueue (deleteLoop bps rt) = commandQueue rt @
     map (\<lambda>bp. \<lparr>job_command = ''Delete '' @ show_nat (bp_id bp), job_pattern = None,
                 job_callback = ResolveDelete (bp_id bp)\<rparr>) bps"
  by (induction bps arbitrary: rt) simp_all

text \<open>
  \<open>clearBreakpoints\<close> queues one delete command for each breakpoint of the file, and
  neither it nor the run of the queue removes a breakpoint from the map.
\<close>

lemma clearBreakpoints_registered:
  "registered (process (clearBreakpoints f rt)) f l = registered rt f l"
proof -
  have "registered (clearBreakpoints f rt) f l = registered rt f l"
    by (simp add: registered_def getBreakpoints_def clearBreakpoints_def deleteLoop_fields)
  then show ?thesis by (simp add: registered_process)
qed

lemmas runtime_eval = example_runtime_def spawned_runtime_def new_MDBRuntime_def setBreakPoint_def
  verifyBreakpoints_def addBreakpointCommand_def addCommandToQueue_def removeBreakpointCommand_def
  clearBreakpoints_def process_def runJob_def executeAndWait_def executeRawCommand_def
  getBreakpoints_def Let_def show_nat.simps show_int_def digit_char_def markVerified_def run_def
  step_def continue_def

lemma clearBreakpoints_commandQueue:
  "commandQueue (clearBreakpoints f rt) = commandQueue rt @
     map (\<lambda>bp. \<lparr>job_command = ''Delete '' @ show_nat (bp_id bp), job_pattern = None,
                 job_callback = ResolveDelete (bp_id bp)\<rparr>)
       (case breakPoints rt (normalizePath rt f) of None \<Rightarrow> [] | Some bps \<Rightarrow> bps)"
  by (simp add: clearBreakpoints_def deleteLoop_fields)

text \<open>
  Without a subprocess the first job with a pattern is rejected and ends the queue: on a
  fresh runtime the command \<open>Break main.c:5\<close> is written, \<open>Delete 1\<close> is dropped and its
  promise never resolves, and the breakpoint stays unverified.
\<close>

lemma process_without_subprocess:
  "stdinWritten (process (clearBreakpoints ''main.c'' (snd (setBreakPoint ''main.c'' 5 example_runtime))))
     = [''Break main.c:5'' @ [LF]]"
  "called (process (clearBreakpoints ''main.c'' (snd (setBreakPoint ''main.c'' 5 example_runtime)))) = []"
  "getBreakpoints (process (clearBreakpoints ''main.c'' (snd (setBreakPoint ''main.c'' 5 example_runtime))))
     ''main.c'' 0 = [\<lparr>bp_id = 1, bp_line = 5, bp_verified = False\<rparr>]"
  by (simp_all add: runtime_eval)

text \<open>
  C1. The first half holds: \<open>clearBreakpoints\<close> queues exactly one delete command for each
  breakpoint registered for the file. The second half fails on the code: the map is
  never written, so the ids and lines that \<open>getBreakpoints\<close> returns are the same after
  the call and the run of the queue as before. On a runtime whose subprocess is running,
  with one breakpoint at line 5 of \<open>main.c\<close>: the commands \<open>Break main.c:5\<close> and \<open>Delete 1\<close>
  are queued, the run of the queue writes both and resolves the promise of the delete
  command, and \<open>getBreakpoints (main.c, 0)\<close> still returns the breakpoint.
\<close>

theorem clearBreakpoints_keeps_breakpoint:
  "commandQueue (clearBreakpoints f rt) = commandQueue rt @
     map (\<lambda>bp. \<lparr>job_command = ''Delete '' @ show_nat (bp_id bp), job_pattern = None,
                 job_callback = ResolveDelete (bp_id bp)\<rparr>)
       (case breakPoints rt (normalizePath rt f) of None \<Rightarrow> [] | Some bps \<Rightarrow> bps) \<and>
   registered (process (clearBreakpoints f rt)) f l = registered rt f l \<and>
   mdbThread spawned_runtime \<and>
   map job_command (commandQueue (clearBreakpoints ''main.c'' (snd (setBreakPoint ''main.c'' 5 spawned_runtime))))
     = [''Break main.c:5'', ''Delete 1''] \<and>
   stdinWritten (process (clearBreakpoints ''main.c'' (snd (setBreakPoint ''main.c'' 5 spawned_runtime))))
     = [''Break main.c:5'' @ [LF], ''Delete 1'' @ [LF]] \<and>
   called (process (clearBreakpoints ''main.c'' (snd (setBreakPoint ''main.c'' 5 spawned_runtime))))
     = [ResolveDelete 1] \<and>
   getBreakpoints (process (clearBreakpoints ''main.c'' (snd (setBreakPoint ''main.c'' 5 spawned_runtime))))
     ''main.c'' 0 = [\<lparr>bp_id = 1, bp_line = 5, bp_verified = True\<rparr>]"
proof -
  have ex: "mdbThread spawned_runtime \<and>
   map job_command (commandQueue (clearBreakpoints ''main.c'' (snd (setBreakPoint ''main.c'' 5 spawned_runtime))))
     = [''Break main.c:5'', ''Delete 1''] \<and>
   stdinWritten (process (clearBreakpoints ''main.c'' (snd (setBreakPoint ''main.c'' 5 spawned_runtime))))
     = [''Break main.c:5'' @ [LF], ''Delete 1'' @ [LF]] \<and>
   called (process (clearBreakpoints ''main.c'' (snd (setBreakPoint ''main.c'' 5 spawned_runtime))))
     = [ResolveDelete 1] \<and>
   getBreakpoints (process (clearBreakpoints ''main.c'' (snd (setBreakPoint ''main.c'' 5 spawned_runtime))))
     ''main.c'' 0 = [\<lparr>bp_id = 1, bp_line = 5, bp_verified = True\<rparr>]"
    by (simp add: runtime_eval)
  from clearBreakpoints_commandQueue [of f rt] clearBreakpoints_registered [of f rt l] ex
  show ?thesis by blast
qed

text \<open>
  An empty file and a file of 4096 bytes or more are loaded from their own bytes,
  whatever the pool holds.
\<close>

lemma arrayBuffer_own:
  "length elfBytes = 0 \<or> 4096 \<le> length elfBytes \<Longrightarrow> arrayBuffer pooled elfBytes = elfBytes"
  by (auto simp: arrayBuffer_def)

lemma start_own_buffer:
  assumes "fs (program args) = Some elfBytes" and "length elfBytes = 0 \<or> 4096 \<le> length elfBytes"
  shows "start fs pooled args rt = start fs (\<lambda>b. b) args rt"
  using assms(1) arrayBuffer_own [OF assms(2)] by (simp add: start_def processElfFile_def)

lemma arrayBuffer_id [simp]: "arrayBuffer (\<lambda>b. b) elfBytes = elfBytes"
  by (simp add: arrayBuffer_def)


lemma image_phdr_beyond_length: "length image_phdr_beyond = 4096"
  by (simp add: image_phdr_beyond_def elf32_header_def)












text \<open>
  C7. The claim fails on the code. \<open>processElfFile\<close> does not read the result of \<open>load\<close>;
  after \<open>INVALID_ELF\<close> from the header or the program header bounds no symbol table has
  been loaded, \<open>elfSymbolTables[0]\<close> is \<open>undefined\<close>, and \<open>start\<close> is rejected with a
  \<open>TypeError\<close> before the device, tool and program commands are sent. So it is for an
  empty program file, and for a file of 4096 bytes whose program headers would end
  outside it, whatever the buffer pool holds.
\<close>

theorem start_fails_on_invalid_elf:
  "ELFFile_load_result (arrayBuffer pooled []) = Some (Inr INVALID_ELF) \<and>
   start (\<lambda>p. Some []) pooled (example_launch False) example_runtime = Some (Inl (Thrown TypeError)) \<and>
   length image_phdr_beyond = 4096 \<and>
   ELFFile_load_result (arrayBuffer pooled image_phdr_beyond) = Some (Inr INVALID_ELF) \<and>
   start (\<lambda>p. Some image_phdr_beyond) pooled (example_launch False) example_runtime
     = Some (Inl (Thrown TypeError))"
proof -
  have e: "arrayBuffer pooled [] = []"
    by (rule arrayBuffer_own) simp
  have buf: "arrayBuffer pooled image_phdr_beyond = image_phdr_beyond"
    by (rule arrayBuffer_own) (simp add: image_phdr_beyond_length)
  have a: "ELFFile_load_result (arrayBuffer pooled []) = Some (Inr INVALID_ELF)"
    unfolding e by (simp add: elf_eval)
  have "start (\<lambda>p. Some []) (\<lambda>b. b) (example_launch False) example_runtime = Some (Inl (Thrown TypeError))"
    by (simp add: start_def processElfFile_def ELFFile_load_def ELFHeader_load_def Let_def)
  then have b: "start (\<lambda>p. Some []) pooled (example_launch False) example_runtime
      = Some (Inl (Thrown TypeError))"
    by (simp add: start_own_buffer [where elfBytes = "[]" and pooled = pooled])
  have c: "ELFFile_load_result (arrayBuffer pooled image_phdr_beyond) = Some (Inr INVALID_ELF)"
    unfolding buf by (simp add: image_phdr_beyond_def elf_eval)
  have "start (\<lambda>p. Some image_phdr_beyond) (\<lambda>b. b) (example_launch False) example_runtime
      = Some (Inl (Thrown TypeError))"
    by (simp add: start_def processElfFile_def image_phdr_beyond_def elf_eval)
  then have d: "start (\<lambda>p. Some image_phdr_beyond) pooled (example_launch False) example_runtime
      = Some (Inl (Thrown TypeError))"
    by (simp add: start_own_buffer [where elfBytes = image_phdr_beyond and pooled = pooled]
          image_phdr_beyond_length)
  from a b c d image_phdr_beyond_length show ?thesis by blast
qed

section \<open>Timeouts and listeners\<close>

lemma onTick_listening: "listening (onTick w) = listening w"
  by (simp add: onTick_def settle_def)

text \<open>
  C2. The wait does fail with a timeout, and a later command still completes. But the
  timeout path does not remove the listener: no tick changes \<open>listening\<close>; after three
  silent milliseconds a wait for \<open>Running\<close> with a timeout of 3 is rejected and still
  attached; the next output with \<open>Running\<close>, meant for a later command, is matched by the
  abandoned listener, which detaches only then; the wait of the later command is resolved
  by the same output.
\<close>

theorem timeout_keeps_listener:
  "listening (onTick w) = listening w \<and>
   occur [Tick, Tick, Tick] [waitForStdOut True (Str ''Running'') 3] =
     [\<lparr>patternOrString = Str ''Running'', timeLeft = 0, intervalSet = False,
       listening = True, promise = Rejected Timeout\<rparr>] \<and>
   occur [Data ''Running''] (occur [Tick, Tick, Tick] [waitForStdOut True (Str ''Running'') 3]
                              @ [waitForStdOut True (Str ''Running'') 30000]) =
     [\<lparr>patternOrString = Str ''Running'', timeLeft = 0, intervalSet = False,
       listening = False, promise = Rejected Timeout\<rparr>,
      \<lparr>patternOrString = Str ''Running'', timeLeft = 30000, intervalSet = False,
       listening = False, promise = Resolved ''Running''\<rparr>]"
proof -
  have a: "listening (onTick w) = listening w" by (rule onTick_listening)
  have b: "occur [Tick, Tick, Tick] [waitForStdOut True (Str ''Running'') 3] =
     [\<lparr>patternOrString = Str ''Running'', timeLeft = 0, intervalSet = False,
       listening = True, promise = Rejected Timeout\<rparr>]"
    by code_simp
  have c: "occur [Data ''Running''] (occur [Tick, Tick, Tick] [waitForStdOut True (Str ''Running'') 3]
                              @ [waitForStdOut True (Str ''Running'') 30000]) =
     [\<lparr>patternOrString = Str ''Running'', timeLeft = 0, intervalSet = False,
       listening = False, promise = Rejected Timeout\<rparr>,
      \<lparr>patternOrString = Str ''Running'', timeLeft = 30000, intervalSet = False,
       listening = False, promise = Resolved ''Running''\<rparr>]"
    by code_simp
  from a b c show ?thesis by blast
qed

section \<open>Stop notifications\<close>

text \<open>
  \<open>parseInt\<close> on the texts the parser can pass: digits, a prefix \<open>0x\<close>, white space and a
  sign, no digit at all, the rounding of a number that no double holds, and a number of
  310 digits.
\<close>

lemma parseInt_examples:
  "parseInt ''42'' 10 = Finite 42"
  "parseInt ''0x00001F2A'' 16 = Finite 7978"
  "parseInt '' -1f'' 16 = Finite (- 31)"
  "parseInt ''-0'' 16 = NegativeZero"
  "parseInt ''0x'' 16 = NotANumber"
  "parseInt ''9007199254740993'' 10 = Finite 9007199254740992"
  "parseInt ''9007199254740995'' 10 = Finite 9007199254740996"
  "parseInt (CHR ''1'' # replicate 309 (CHR ''0'')) 10 = PositiveInfinity"
  by code_simp+

text \<open>
  C5. A complete notification is parsed as the claim says: the address as a hexadecimal
  number, the line as a decimal one. But the test is on the number of matches, and the
  message with the marker is in the buffer twice: one message with the marker, an address
  and a file, and no source line, gives four matches and a \<open>STOP_AT\<close> event without a
  line.
\<close>

theorem stop_event_without_line:
  "events (parseStdOutMessage
      (''Stop at'' @ [CR, LF] @ ''address:0x00001F2A'' @ [CR, LF] @ ''file:/src/main.c'' @ [CR, LF] @
       ''source line:42'' @ [CR, LF]) example_runtime)
     = [StopOnException \<lparr>ev_eventType = Some STOP_AT, ev_address = Some (Finite 7978),
                         ev_file = Some ''/src/main.c'', ev_line = Some (Finite 42)\<rparr>] \<and>
   events (parseStdOutMessage
      (''stop at'' @ [CR, LF] @ ''address:0x00000010'' @ [CR, LF] @ ''file:a.c'' @ [CR, LF]) example_runtime)
     = [StopOnException \<lparr>ev_eventType = Some STOP_AT, ev_address = Some (Finite 16),
                         ev_file = Some ''a.c'', ev_line = None\<rparr>] \<and>
   \<not> str_includes (''stop at'' @ [CR, LF] @ ''address:0x00000010'' @ [CR, LF] @ ''file:a.c'' @ [CR, LF])
         ''source line:''"
  by code_simp

section \<open>Stack traces\<close>

text \<open>
  C8. On a backtrace of two frames, a line that is no frame and the prompt, \<open>stack\<close>
  returns the two frames in order, with their count, as the claim says. But it does not
  do so on every backtrace. The listener of the wait rejects on any message that
  contains \<open>err\<close>: a backtrace with a frame of the function \<open>on_error\<close> is rejected and no
  frame is returned, though the line has the form of a frame. And the buffer that
  collects the backtrace is the one the event parser resets: when the second message of
  a backtrace holds a line \<open>Stop at\<close>, the frame of the first message is lost and the
  frame of the second is returned twice.
\<close>

theorem stack_loses_frames:
  "map_sum id fst (stack 0 5 backtrace_output spawned_runtime) =
     Inr ([\<lparr>frame_index = Finite 0, frame_name = ''main'', frame_file = ''main.c'', frame_line = Finite 10\<rparr>,
           \<lparr>frame_index = Finite 1, frame_name = ''isr'', frame_file = ''isr.c'', frame_line = Finite 4\<rparr>], 2) \<and>
   map_sum id fst (stack 0 5 backtrace_on_error spawned_runtime) =
     Inl (ToolError (concat backtrace_on_error)) \<and>
   List.map_filter parseFrame (split_crlf (concat backtrace_on_error)) =
     [\<lparr>frame_index = Finite 0, frame_name = ''on_error'', frame_file = ''main.c'', frame_line = Finite 10\<rparr>] \<and>
   map_sum id fst (stack 0 5 backtrace_stopped spawned_runtime) =
     Inr ([\<lparr>frame_index = Finite 1, frame_name = ''isr'', frame_file = ''isr.c'', frame_line = Finite 4\<rparr>,
           \<lparr>frame_index = Finite 1, frame_name = ''isr'', frame_file = ''isr.c'', frame_line = Finite 4\<rparr>], 2) \<and>
   List.map_filter parseFrame (split_crlf (concat backtrace_stopped)) =
     [\<lparr>frame_index = Finite 0, frame_name = ''main'', frame_file = ''main.c'', frame_line = Finite 10\<rparr>,
      \<lparr>frame_index = Finite 1, frame_name = ''isr'', frame_file = ''isr.c'', frame_line = Finite 4\<rparr>]"
proof -
  have a: "map_sum id fst (stack 0 5 backtrace_output spawned_runtime) =
     Inr ([\<lparr>frame_index = Finite 0, frame_name = ''main'', frame_file = ''main.c'', frame_line = Finite 10\<rparr>,
           \<lparr>frame_index = Finite 1, frame_name = ''isr'', frame_file = ''isr.c'', frame_line = Finite 4\<rparr>], 2)"
    by code_simp
  have b: "map_sum id fst (stack 0 5 backtrace_on_error spawned_runtime) =
     Inl (ToolError (concat backtrace_on_error))"
    by code_simp
  have c: "List.map_filter parseFrame (split_crlf (concat backtrace_on_error)) =
     [\<lparr>frame_index = Finite 0, frame_name = ''on_error'', frame_file = ''main.c'', frame_line = Finite 10\<rparr>]"
    by code_simp
  have d: "map_sum id fst (stack 0 5 backtrace_stopped spawned_runtime) =
     Inr ([\<lparr>frame_index = Finite 1, frame_name = ''isr'', frame_file = ''isr.c'', frame_line = Finite 4\<rparr>,
           \<lparr>frame_index = Finite 1, frame_name = ''isr'', frame_file = ''isr.c'', frame_line = Finite 4\<rparr>], 2)"
    by code_simp
  have e: "List.map_filter parseFrame (split_crlf (concat backtrace_stopped)) =
     [\<lparr>frame_index = Finite 0, frame_name = ''main'', frame_file = ''main.c'', frame_line = Finite 10\<rparr>,
      \<lparr>frame_index = Finite 1, frame_name = ''isr'', frame_file = ''isr.c'', frame_line = Finite 4\<rparr>]"
    by code_simp
  from a b c d e show ?thesis by blast
qed

end
